theory Spec2Isabelle
  imports Complex_Main "HOL-Library.Product_Lexorder"
begin

section \<open>Data model of Depenedencias.py\<close>

text \<open>
  Python floats are modelled as mathematical reals. The one non-finite value the code
  produces on purpose, \<^verbatim>\<open>float('inf')\<close>, is kept apart in the type \<open>flt\<close>; NaN is outside the
  model, and so is rounding, except in the loop of \<^verbatim>\<open>calcular_tiempo_esperado\<close>, whose result
  depends on it. The four strings the code assigns to \<^verbatim>\<open>estado\<close> are the constructors of
  \<open>estado\<close>.
\<close>

datatype estado = En_vuelo | Marcha_atras | Aterrizado | Desviado

datatype flt = Fin real | PInf

datatype error = ZeroDivisionError | ValueError

definition DISTANCIA_INICIAL :: real where "DISTANCIA_INICIAL = 100"
definition VEL_MARCHA_ATRAS :: real where "VEL_MARCHA_ATRAS = 200"
definition GAP_MIN :: real where "GAP_MIN = 4"
definition GAP_BUFFER :: real where "GAP_BUFFER = 5"
definition GAP_REINSERCION :: real where "GAP_REINSERCION = 10"
definition DT :: real where "DT = 1"

text \<open>
  Python's \<^verbatim>\<open>int(x)\<close> on a float truncates towards zero, and \<^verbatim>\<open>x / y\<close> raises
  \<^verbatim>\<open>ZeroDivisionError\<close> when \<^verbatim>\<open>y\<close> is zero.
\<close>

definition py_int :: "real \<Rightarrow> int" where
  "py_int x = (if 0 \<le> x then \<lfloor>x\<rfloor> else \<lceil>x\<rceil>)"

definition py_truediv :: "real \<Rightarrow> real \<Rightarrow> error + real" where
  "py_truediv x y = (if y = 0 then Inl ZeroDivisionError else Inr (x / y))"

text \<open>Comparisons of a float that may be infinite with a finite one.\<close>

fun flt_less :: "flt \<Rightarrow> real \<Rightarrow> bool" where
  "flt_less (Fin x) r = (x < r)"
| "flt_less PInf r = False"

fun flt_ge :: "flt \<Rightarrow> real \<Rightarrow> bool" where
  "flt_ge (Fin x) r = (r \<le> x)"
| "flt_ge PInf r = True"


fun flt_add :: "flt \<Rightarrow> flt \<Rightarrow> flt" where
  "flt_add (Fin x) (Fin y) = Fin (x + y)"
| "flt_add _ _ = PInf"

text \<open>One entry of \<^verbatim>\<open>historial_posiciones\<close> (a dict with a fixed set of keys).\<close>

record registro =
  r_minuto :: int
  r_pos :: real
  r_vel :: real
  r_estado :: estado
  r_gap_adelante :: "flt option"
  r_lead_id :: "int option"
  r_gap_atras :: "flt option"
  r_tail_id :: "int option"

text \<open>The class \<^verbatim>\<open>Avion\<close>.\<close>

record avion =
  num :: int
  tiempo_radar :: int
  posicion :: real
  estado :: estado
  velocidad_actual :: real
  gap_adelante :: "flt option"
  lead_id :: "int option"
  gap_atras :: "flt option"
  tail_id :: "int option"
  atraso :: int
  MarchaAt :: int
  historial_posiciones :: "registro list"

subsection \<open>Allowed speeds\<close>

definition velocidad_permitida :: "real \<Rightarrow> real \<times> real" where
  "velocidad_permitida d =
     (if d > 100 then (500, 300)
      else if d > 50 then (300, 250)
      else if d > 15 then (250, 200)
      else if d > 5 then (200, 150)
      else (150, 120))"

definition vel_max_actual :: "avion \<Rightarrow> real" where
  "vel_max_actual a = fst (velocidad_permitida (posicion a))"

definition vel_min_actual :: "avion \<Rightarrow> real" where
  "vel_min_actual a = snd (velocidad_permitida (posicion a))"

subsection \<open>Construction\<close>

definition Avion :: "int \<Rightarrow> int \<Rightarrow> real \<Rightarrow> avion" where
  "Avion n t distancia_inicial =
     \<lparr> num = n, tiempo_radar = t, posicion = distancia_inicial, estado = En_vuelo,
       velocidad_actual = fst (velocidad_permitida distancia_inicial),
       gap_adelante = None, lead_id = None, gap_atras = None, tail_id = None,
       atraso = 0, MarchaAt = 0,
       historial_posiciones =
         [\<lparr> r_minuto = t - 1, r_pos = distancia_inicial,
            r_vel = fst (velocidad_permitida distancia_inicial), r_estado = En_vuelo,
            r_gap_adelante = None, r_lead_id = None, r_gap_atras = None,
            r_tail_id = None \<rparr>] \<rparr>"

subsection \<open>Movement\<close>

definition registrar_estado :: "avion \<Rightarrow> int \<Rightarrow> real option \<Rightarrow> avion" where
  "registrar_estado a minuto vel =
     a\<lparr> historial_posiciones := historial_posiciones a @
         [\<lparr> r_minuto = minuto, r_pos = posicion a,
            r_vel = (case vel of None \<Rightarrow> velocidad_actual a | Some v \<Rightarrow> v),
            r_estado = estado a, r_gap_adelante = gap_adelante a, r_lead_id = lead_id a,
            r_gap_atras = gap_atras a, r_tail_id = tail_id a \<rparr>] \<rparr>"

definition avanzar_minuto :: "avion \<Rightarrow> int \<Rightarrow> real \<Rightarrow> avion" where
  "avanzar_minuto a minuto dt =
     (if estado a = Aterrizado \<or> estado a = Desviado then registrar_estado a minuto (Some 0)
      else if estado a = Marcha_atras then registrar_estado a minuto None
      else
        let vel = velocidad_actual a;
            avance = vel / 60 * dt;
            a1 = a\<lparr> posicion := max 0 (posicion a - avance) \<rparr>
        in if posicion a1 \<le> 0
           then registrar_estado (a1\<lparr> posicion := 0, estado := Aterrizado \<rparr>) minuto (Some 0)
           else registrar_estado a1 minuto (Some vel))"

definition marcar_desviado :: "avion \<Rightarrow> avion" where
  "marcar_desviado a = a\<lparr> estado := Desviado, velocidad_actual := 0 \<rparr>"

definition iniciar_marcha_atras :: "avion \<Rightarrow> avion" where
  "iniciar_marcha_atras a = a\<lparr> estado := Marcha_atras \<rparr>"

section \<open>The queue: speed control\<close>

text \<open>
  The body of the loop of \<^verbatim>\<open>Fila.actualizar_velocidades\<close> for one aircraft. It returns the
  aircraft as the body leaves it, whether it was appended to \<^verbatim>\<open>marcha_atras\<close> (otherwise
  to \<^verbatim>\<open>en_vuelo_activos\<close>), and the new value of \<^verbatim>\<open>resultados["congestion"]\<close>.
\<close>

definition ajustar_velocidad :: "avion \<Rightarrow> int \<Rightarrow> avion \<times> bool \<times> int" where
  "ajustar_velocidad a congestion =
     (if estado a = Marcha_atras then (a, True, congestion)
      else
        let gap = gap_adelante a;
            vel_max = vel_max_actual a;
            vel_min = vel_min_actual a
        in case gap of
             None \<Rightarrow>
               ((if velocidad_actual a < vel_max then a\<lparr> velocidad_actual := vel_max \<rparr> else a)
                  \<lparr> estado := En_vuelo \<rparr>, False, congestion)
           | Some g \<Rightarrow>
               if flt_less g GAP_MIN then
                 let vel_reducida = velocidad_actual a - 20
                 in if vel_reducida < vel_min
                    then (a\<lparr> velocidad_actual := - VEL_MARCHA_ATRAS, estado := Marcha_atras \<rparr>,
                          True, congestion)
                    else (a\<lparr> velocidad_actual := vel_reducida, estado := En_vuelo \<rparr>,
                          False, congestion + 1)
               else if flt_ge g GAP_BUFFER then
                 ((if velocidad_actual a < vel_max then a\<lparr> velocidad_actual := vel_max \<rparr> else a)
                    \<lparr> estado := En_vuelo \<rparr>, False, congestion)
               else (a\<lparr> estado := En_vuelo \<rparr>, False, congestion))"

text \<open>
  The loop itself, over the aircraft still to visit. The state is the part of
  \<^verbatim>\<open>self.aviones\<close> already visited, the two result lists and the congestion counter.
\<close>

fun velocidades_bucle ::
  "avion list \<Rightarrow> avion list \<Rightarrow> avion list \<Rightarrow> avion list \<Rightarrow> int
     \<Rightarrow> avion list \<times> avion list \<times> avion list \<times> int" where
  "velocidades_bucle [] vistos en_vuelo_activos marcha_atras congestion =
     (vistos, en_vuelo_activos, marcha_atras, congestion)"
| "velocidades_bucle (a # resto) vistos en_vuelo_activos marcha_atras congestion =
     (case ajustar_velocidad a congestion of
        (a', True, c') \<Rightarrow>
          velocidades_bucle resto (vistos @ [a']) en_vuelo_activos (marcha_atras @ [a']) c'
      | (a', False, c') \<Rightarrow>
          velocidades_bucle resto (vistos @ [a']) (en_vuelo_activos @ [a']) marcha_atras c')"

text \<open>
  \<^verbatim>\<open>Fila.actualizar_velocidades\<close>: the queue after the pass, the two returned lists and
  the congestion counter.
\<close>

definition actualizar_velocidades ::
  "avion list \<Rightarrow> int \<Rightarrow> avion list \<times> avion list \<times> avion list \<times> int" where
  "actualizar_velocidades aviones congestion = velocidades_bucle aviones [] [] [] congestion"


text \<open>
  The condition under which the loop body takes the branch that increments
  \<^verbatim>\<open>resultados["congestion"]\<close>: the aircraft is not reversing, its gap is below
  \<^verbatim>\<open>GAP_MIN\<close> and the reduced speed is not below the band minimum.
\<close>

definition rama_congestion :: "avion \<Rightarrow> bool" where
  "rama_congestion a =
     (estado a \<noteq> Marcha_atras \<and>
      (case gap_adelante a of
         None \<Rightarrow> False
       | Some g \<Rightarrow> flt_less g GAP_MIN \<and> \<not> velocidad_actual a - 20 < vel_min_actual a))"

section \<open>The queue: ordering and gaps\<close>



text \<open>
  The body of the loop of \<^verbatim>\<open>Fila.actualizar_gaps\<close> at index \<open>i\<close>, reading the neighbours from
  the list as the loop has left it so far.
\<close>

definition gaps_paso :: "avion list \<Rightarrow> nat \<Rightarrow> error + avion" where
  "gaps_paso aviones i =
     (let n = length aviones;
          avion = aviones ! i
      in case
           (if i = 0 then Inr (avion\<lparr> lead_id := None, gap_adelante := None \<rparr>)
            else
              let lead = aviones ! (i - 1);
                  distancia_gap = posicion avion - posicion lead
              in if velocidad_actual lead > 0 then
                   (case py_truediv distancia_gap (velocidad_actual lead) of
                      Inl e \<Rightarrow> Inl e
                    | Inr q \<Rightarrow>
                        Inr (avion\<lparr> lead_id := Some (num lead),
                                    gap_adelante := Some (Fin (q * 60)) \<rparr>))
                 else Inr (avion\<lparr> lead_id := Some (num lead), gap_adelante := Some PInf \<rparr>))
         of
           Inl e \<Rightarrow> Inl e
         | Inr avion1 \<Rightarrow>
             if i = n - 1 then Inr (avion1\<lparr> tail_id := None, gap_atras := None \<rparr>)
             else
               let tail = aviones ! (i + 1);
                   distancia_gap = posicion tail - posicion avion1
               in if velocidad_actual avion1 > 0 then
                    (case py_truediv distancia_gap (velocidad_actual avion1) of
                       Inl e \<Rightarrow> Inl e
                     | Inr q \<Rightarrow>
                         Inr (avion1\<lparr> tail_id := Some (num tail),
                                      gap_atras := Some (Fin (q * 60)) \<rparr>))
                  else Inr (avion1\<lparr> tail_id := Some (num tail), gap_atras := Some PInf \<rparr>))"

fun gaps_bucle :: "nat list \<Rightarrow> avion list \<Rightarrow> error + avion list" where
  "gaps_bucle [] aviones = Inr aviones"
| "gaps_bucle (i # resto) aviones =
     (case gaps_paso aviones i of
        Inl e \<Rightarrow> Inl e
      | Inr avion' \<Rightarrow> gaps_bucle resto (aviones[i := avion']))"

definition actualizar_gaps :: "avion list \<Rightarrow> error + avion list" where
  "actualizar_gaps fila =
     (let aviones = sort_key (\<lambda>a. (posicion a, num a)) fila
      in gaps_bucle [0 ..< length aviones] aviones)"

section \<open>Time to land and the feasibility check\<close>

text \<open>
  The number of iterations of the loop of \<^verbatim>\<open>calcular_tiempo_esperado\<close> depends on how the
  division and the subtraction are rounded, so here they are the operations of IEEE 754
  double precision: the exact result rounded to the nearest number with a significand of
  53 bits, ties to the even one (\<open>redondear\<close>). For \<open>x > 0\<close>, \<open>exponente x\<close> is the \<open>e\<close> with
  \<open>2 ^ e \<le> x < 2 ^ (e + 1)\<close>, found from the length in bits of the integer part. Overflow
  and subnormal numbers (magnitudes from \<open>2 ^ 1024\<close> or below \<open>2 ^ - 1022\<close>) are outside the
  model.
\<close>

fun longitud_bits :: "nat \<Rightarrow> nat" where
  "longitud_bits n = (if n = 0 then 0 else Suc (longitud_bits (n div 2)))"

declare longitud_bits.simps [simp del]

definition dos_a :: "int \<Rightarrow> real" where
  "dos_a e = (if 0 \<le> e then 2 ^ nat e else 1 / 2 ^ nat (- e))"

definition exponente :: "real \<Rightarrow> int" where
  "exponente x =
     (if 1 \<le> x then int (longitud_bits (nat \<lfloor>x\<rfloor>)) - 1
      else - int (longitud_bits (nat (\<lceil>1 / x\<rceil> - 1))))"








section \<open>Moving the aircraft\<close>

text \<open>
  The body of the loop of \<^verbatim>\<open>avanzar_aviones_un_minuto\<close> for one aircraft, with
  \<^verbatim>\<open>resultados["desviados"]\<close> passed through.
\<close>

definition mover_avion :: "avion \<Rightarrow> int \<Rightarrow> real \<Rightarrow> int \<Rightarrow> avion \<times> int" where
  "mover_avion a minuto dt desviados =
     (let avance_nm_por_min = VEL_MARCHA_ATRAS / 60
      in if estado a = En_vuelo then (avanzar_minuto a minuto dt, desviados)
         else if estado a = Marcha_atras then
           let a1 = a\<lparr> posicion := posicion a + avance_nm_por_min * dt \<rparr>;
               (a2, d2) = (if posicion a1 > DISTANCIA_INICIAL
                           then (a1\<lparr> estado := Desviado, velocidad_actual := 0 \<rparr>, desviados + 1)
                           else (a1, desviados))
           in (registrar_estado a2 minuto None, d2)
         else (a, desviados))"

fun avanzar_aviones_un_minuto :: "avion list \<Rightarrow> int \<Rightarrow> real \<Rightarrow> int \<Rightarrow> avion list \<times> int" where
  "avanzar_aviones_un_minuto [] minuto dt desviados = ([], desviados)"
| "avanzar_aviones_un_minuto (a # resto) minuto dt desviados =
     (let (a', d') = mover_avion a minuto dt desviados;
          (resto', d'') = avanzar_aviones_un_minuto resto minuto dt d'
      in (a' # resto', d''))"

section \<open>Disruptions\<close>

text \<open>
  \<^verbatim>\<open>cerrar_AEP\<close>. The draws of \<^verbatim>\<open>np.random.rand()\<close> are the values \<open>rand 0\<close>, \<open>rand 1\<close>, ...
  in the order they are taken; \<open>k\<close> counts the draws taken so far.
\<close>

fun cerrar_AEP_bucle ::
  "avion list \<Rightarrow> real \<Rightarrow> (nat \<Rightarrow> real) \<Rightarrow> nat \<Rightarrow> avion list \<Rightarrow> error + avion list" where
  "cerrar_AEP_bucle [] prob_interrupcion rand k vistos = Inr vistos"
| "cerrar_AEP_bucle (a # resto) prob_interrupcion rand k vistos =
     (if estado a = En_vuelo then
        (case py_truediv (posicion a) (velocidad_actual a) of
           Inl e \<Rightarrow> Inl e
         | Inr q \<Rightarrow>
             let tiempo_estimado_min = q * 60
             in if tiempo_estimado_min \<le> 1 then
                  (if rand k < prob_interrupcion
                   then cerrar_AEP_bucle resto prob_interrupcion rand (k + 1)
                          (vistos @ [a\<lparr> estado := Marcha_atras,
                                        velocidad_actual := - VEL_MARCHA_ATRAS \<rparr>])
                   else cerrar_AEP_bucle resto prob_interrupcion rand (k + 1) (vistos @ [a]))
                else cerrar_AEP_bucle resto prob_interrupcion rand k (vistos @ [a]))
      else cerrar_AEP_bucle resto prob_interrupcion rand k (vistos @ [a]))"

definition cerrar_AEP :: "avion list \<Rightarrow> real \<Rightarrow> (nat \<Rightarrow> real) \<Rightarrow> error + avion list" where
  "cerrar_AEP aviones prob_interrupcion rand =
     cerrar_AEP_bucle aviones prob_interrupcion rand 0 []"

text \<open>
  \<^verbatim>\<open>Horario_Tormenta\<close>. \<open>randint low high\<close> stands for \<^verbatim>\<open>np.random.randint(low, high)\<close>,
  whose result lies in \<open>[low, high)\<close>.
\<close>

definition Horario_Tormenta :: "real \<Rightarrow> (int \<Rightarrow> int \<Rightarrow> int) \<Rightarrow> error + int list" where
  "Horario_Tormenta tiempo_horas randint =
     (let max_minuto = py_int (tiempo_horas * 60)
      in if max_minuto < 30 then Inl ValueError
         else let inicio = randint 0 (max_minuto - 30 + 1)
              in Inr [inicio .. inicio + 30 - 1])"

section \<open>Arrival generator\<close>

text \<open>
  Step 1 of \<^verbatim>\<open>generar_vuelos_poisson\<close>. The draws of \<^verbatim>\<open>np.random.exponential\<close> are given
  as a list, used in order; the result is \<open>None\<close> when the list is used up before the
  loop ends.
\<close>

function tiempos_reales_bucle ::
  "flt \<Rightarrow> int \<Rightarrow> real \<Rightarrow> real list \<Rightarrow> real list \<Rightarrow> real list option" where
  "tiempos_reales_bucle tiempo total_min lambda_min draws tiempos_reales =
     (if flt_less tiempo (real_of_int total_min) then
        (if lambda_min > 0 then
           (case draws of
              [] \<Rightarrow> None
            | delta # resto \<Rightarrow>
                let tiempo' = flt_add tiempo (Fin delta)
                in tiempos_reales_bucle tiempo' total_min lambda_min resto
                     (case tiempo' of
                        Fin x \<Rightarrow> if x < real_of_int total_min then tiempos_reales @ [x]
                                 else tiempos_reales
                      | PInf \<Rightarrow> tiempos_reales))
         else tiempos_reales_bucle (flt_add tiempo PInf) total_min lambda_min draws
                tiempos_reales)
      else Some tiempos_reales)"
  by pat_completeness auto
termination
proof (relation "measure (\<lambda>(tiempo, total_min, lambda_min, draws, tiempos_reales).
        if flt_less tiempo (real_of_int total_min) then Suc (length draws) else 0)", goal_cases)
  case 1
  show ?case by simp
next
  case (2 tiempo total_min lambda_min draws tiempos_reales delta resto tiempo')
  then show ?case by simp
next
  case (3 tiempo total_min lambda_min draws tiempos_reales)
  then show ?case by (cases tiempo) simp_all
qed

declare tiempos_reales_bucle.simps [simp del]

text \<open>Step 2: the inner loop that moves a minute forward while it is taken.\<close>

function desplazar :: "int set \<Rightarrow> int \<Rightarrow> int \<Rightarrow> int" where
  "desplazar ocupados total_min minuto =
     (if minuto \<in> ocupados \<and> minuto < total_min
      then desplazar ocupados total_min (minuto + 1) else minuto)"
  by pat_completeness auto
termination
  by (relation "measure (\<lambda>(ocupados, total_min, minuto). nat (total_min - minuto))") auto

declare desplazar.simps [simp del]

fun enteros_bucle :: "real list \<Rightarrow> int \<Rightarrow> int list \<Rightarrow> int set \<Rightarrow> int list" where
  "enteros_bucle [] total_min tiempos_enteros ocupados = tiempos_enteros"
| "enteros_bucle (t # resto) total_min tiempos_enteros ocupados =
     (let minuto = desplazar ocupados total_min (py_int t)
      in if minuto < total_min
         then enteros_bucle resto total_min (tiempos_enteros @ [minuto]) (insert minuto ocupados)
         else enteros_bucle resto total_min tiempos_enteros ocupados)"

definition generar_vuelos_poisson :: "real \<Rightarrow> real \<Rightarrow> real list \<Rightarrow> int list option" where
  "generar_vuelos_poisson lambda_hora duracion_horas draws =
     (let lambda_min = lambda_hora / 60;
          total_min = py_int (duracion_horas * 60)
      in case tiempos_reales_bucle (Fin 0) total_min lambda_min draws [] of
           None \<Rightarrow> None
         | Some tiempos_reales \<Rightarrow> Some (sort (enteros_bucle tiempos_reales total_min [] {})))"

definition crear_aviones :: "real \<Rightarrow> real \<Rightarrow> real \<Rightarrow> real list \<Rightarrow> avion list option" where
  "crear_aviones lambda_hora duracion_horas distancia_inicial draws =
     (case generar_vuelos_poisson lambda_hora duracion_horas draws of
        None \<Rightarrow> None
      | Some tiempos \<Rightarrow>
          Some (map (\<lambda>(i, t). Avion (int i + 1) t distancia_inicial) (enumerate 0 tiempos)))"

text \<open>
  What the loop of \<^verbatim>\<open>actualizar_gaps\<close> writes at index \<open>i\<close> of the sorted list \<open>s\<close>, in closed
  form, and the fields of a neighbour the loop reads. Both are used in the proofs only.
\<close>

definition gaps_de :: "avion list \<Rightarrow> nat \<Rightarrow> avion" where
  "gaps_de s i =
     (s ! i)\<lparr> lead_id := (if i = 0 then None else Some (num (s ! (i - 1)))),
              gap_adelante :=
                (if i = 0 then None
                 else if velocidad_actual (s ! (i - 1)) > 0
                 then Some (Fin ((posicion (s ! i) - posicion (s ! (i - 1)))
                                  / velocidad_actual (s ! (i - 1)) * 60))
                 else Some PInf),
              tail_id := (if i = length s - 1 then None else Some (num (s ! (i + 1)))),
              gap_atras :=
                (if i = length s - 1 then None
                 else if velocidad_actual (s ! i) > 0
                 then Some (Fin ((posicion (s ! (i + 1)) - posicion (s ! i))
                                  / velocidad_actual (s ! i) * 60))
                 else Some PInf) \<rparr>"

definition mismos_datos :: "avion \<Rightarrow> avion \<Rightarrow> bool" where
  "mismos_datos a b =
     (num a = num b \<and> posicion a = posicion b \<and> velocidad_actual a = velocidad_actual b)"

text \<open>
  The states an aircraft can be in: created by \<^verbatim>\<open>Avion\<close> at a non-negative distance, and
  then changed by the operations of the module in any order and number (the methods of
  \<^verbatim>\<open>Avion\<close>, the fields written by \<^verbatim>\<open>actualizar_gaps\<close>, the bodies of the loops of
  \<^verbatim>\<open>actualizar_velocidades\<close>, \<^verbatim>\<open>avanzar_aviones_un_minuto\<close> with a non-negative \<^verbatim>\<open>dt\<close>, and
  \<^verbatim>\<open>cerrar_AEP\<close>).
\<close>

inductive alcanzable :: "avion \<Rightarrow> bool" where
  al_nuevo: "0 \<le> d \<Longrightarrow> alcanzable (Avion n t d)"
| al_avanzar: "alcanzable a \<Longrightarrow> alcanzable (avanzar_minuto a minuto dt)"
| al_desviado: "alcanzable a \<Longrightarrow> alcanzable (marcar_desviado a)"
| al_marcha_atras: "alcanzable a \<Longrightarrow> alcanzable (iniciar_marcha_atras a)"
| al_gaps: "alcanzable a \<Longrightarrow>
     alcanzable (a\<lparr> lead_id := l, gap_adelante := g, tail_id := t', gap_atras := h \<rparr>)"
| al_velocidad: "alcanzable a \<Longrightarrow> alcanzable (fst (ajustar_velocidad a c))"
| al_mover: "alcanzable a \<Longrightarrow> 0 \<le> dt \<Longrightarrow> alcanzable (fst (mover_avion a minuto dt c))"
| al_viento: "alcanzable a \<Longrightarrow> estado a = En_vuelo \<Longrightarrow>
     alcanzable (a\<lparr> estado := Marcha_atras, velocidad_actual := - VEL_MARCHA_ATRAS \<rparr>)"

text \<open>
  The condition under which the loop body of \<^verbatim>\<open>avanzar_aviones_un_minuto\<close> increments
  \<^verbatim>\<open>resultados["desviados"]\<close>.
\<close>

definition sale_del_radar :: "real \<Rightarrow> avion \<Rightarrow> bool" where
  "sale_del_radar dt a =
     (estado a = Marcha_atras \<and>
      posicion a + VEL_MARCHA_ATRAS / 60 * dt > DISTANCIA_INICIAL)"


section \<open>Properties of the speed-control pass\<close>

lemma ajustar_fst: "fst (ajustar_velocidad a c) = fst (ajustar_velocidad a 0)"
  by (simp add: ajustar_velocidad_def Let_def split: option.splits)

lemma ajustar_flag:
  "fst (snd (ajustar_velocidad a c)) = (estado (fst (ajustar_velocidad a 0)) = Marcha_atras)"
  by (simp add: ajustar_velocidad_def Let_def split: option.splits)

lemma ajustar_cont:
  "snd (snd (ajustar_velocidad a c)) = c + (if rama_congestion a then 1 else 0)"
  by (simp add: ajustar_velocidad_def rama_congestion_def Let_def split: option.splits)

lemma ajustar_estado:
  "estado (fst (ajustar_velocidad a 0)) = Marcha_atras \<or>
   estado (fst (ajustar_velocidad a 0)) = En_vuelo"
  by (simp add: ajustar_velocidad_def Let_def split: option.splits)

lemma bucle_cerrado:
  "velocidades_bucle xs vistos ev ma c =
     (vistos @ map (\<lambda>a. fst (ajustar_velocidad a 0)) xs,
      ev @ filter (\<lambda>a. estado a \<noteq> Marcha_atras) (map (\<lambda>a. fst (ajustar_velocidad a 0)) xs),
      ma @ filter (\<lambda>a. estado a = Marcha_atras) (map (\<lambda>a. fst (ajustar_velocidad a 0)) xs),
      c + int (length (filter rama_congestion xs)))"
proof (induction xs arbitrary: vistos ev ma c)
  case Nil
  then show ?case by simp
next
  case (Cons a xs)
  obtain a' f c' where r: "ajustar_velocidad a c = (a', f, c')"
    by (cases "ajustar_velocidad a c") auto
  have 1: "a' = fst (ajustar_velocidad a 0)" using ajustar_fst [of a c] r by simp
  have 2: "f = (estado a' = Marcha_atras)" using ajustar_flag [of a c] r 1 by simp
  have 3: "c' = c + (if rama_congestion a then 1 else 0)" using ajustar_cont [of a c] r by simp
  show ?case
  proof (cases f)
    case True
    then show ?thesis using r 1 2 3 Cons.IH by simp
  next
    case False
    then show ?thesis using r 1 2 3 Cons.IH by simp
  qed
qed

lemma actualizar_cerrado:
  "actualizar_velocidades xs c =
     (map (\<lambda>a. fst (ajustar_velocidad a 0)) xs,
      filter (\<lambda>a. estado a \<noteq> Marcha_atras) (map (\<lambda>a. fst (ajustar_velocidad a 0)) xs),
      filter (\<lambda>a. estado a = Marcha_atras) (map (\<lambda>a. fst (ajustar_velocidad a 0)) xs),
      c + int (length (filter rama_congestion xs)))"
  by (simp add: actualizar_velocidades_def bucle_cerrado)

lemma ajustar_en_vuelo:
  assumes "estado a = En_vuelo"
  shows "fst (ajustar_velocidad a 0) =
     (case gap_adelante a of
        None \<Rightarrow> a\<lparr> velocidad_actual := max (velocidad_actual a) (vel_max_actual a) \<rparr>
      | Some g \<Rightarrow>
          if flt_less g 4 then
            (if velocidad_actual a - 20 < vel_min_actual a
             then a\<lparr> velocidad_actual := - 200, estado := Marcha_atras \<rparr>
             else a\<lparr> velocidad_actual := velocidad_actual a - 20 \<rparr>)
          else if flt_ge g 5
            then a\<lparr> velocidad_actual := max (velocidad_actual a) (vel_max_actual a) \<rparr>
          else a)"
  using assms
  by (simp add: ajustar_velocidad_def Let_def GAP_MIN_def GAP_BUFFER_def VEL_MARCHA_ATRAS_def
      max_def split: option.splits)

lemma flt_less_ge: "flt_less g r \<Longrightarrow> r \<le> s \<Longrightarrow> \<not> flt_ge g s"
  by (cases g) auto

lemma ajustar_marco:
  "estado a \<noteq> Marcha_atras \<Longrightarrow>
   fst (ajustar_velocidad a 0) =
     a\<lparr> velocidad_actual := velocidad_actual (fst (ajustar_velocidad a 0)),
        estado := estado (fst (ajustar_velocidad a 0)) \<rparr>"
  by (simp add: ajustar_velocidad_def Let_def split: option.splits)

text \<open>
  Claim C1. Let \<open>a\<close> be an aircraft of the queue in state \<open>En_vuelo\<close>, \<open>a'\<close> the same aircraft
  after one pass of \<open>actualizar_velocidades\<close>, and \<open>g\<close> its \<open>gap_adelante\<close>. If \<open>g\<close> is
  \<open>None\<close> or at least 5, \<open>a'\<close> is still \<open>En_vuelo\<close> and its speed is the band maximum when it was
  below it (and unchanged otherwise). If \<open>4 \<le> g < 5\<close>, \<open>a' = a\<close>. If \<open>g < 4\<close> and the speed
  less 20 is not below the band minimum, the speed is reduced by exactly 20, the state stays
  \<open>En_vuelo\<close> and the body adds 1 to the congestion counter; if it is below the band
  minimum, the speed becomes \<open>- 200\<close> and the state \<open>Marcha_atras\<close>, and the counter is not
  touched. A gap of exactly 4 holds the speed; a gap of exactly 5 takes the accelerating
  branch. The counter returned is the one given plus the number of aircraft that took the
  congestion branch.
\<close>

theorem actualizar_velocidades_por_casos:
  assumes "i < length aviones" and "estado (aviones ! i) = En_vuelo"
  shows "let a = aviones ! i;
             a' = fst (actualizar_velocidades aviones c) ! i;
             c' = snd (snd (snd (actualizar_velocidades aviones c)));
             v = velocidad_actual a; vmax = vel_max_actual a; vmin = vel_min_actual a
         in length (fst (actualizar_velocidades aviones c)) = length aviones \<and>
            ((gap_adelante a = None \<or> (\<exists>g. gap_adelante a = Some g \<and> flt_ge g 5)) \<longrightarrow>
               estado a' = En_vuelo \<and> (v < vmax \<longrightarrow> velocidad_actual a' = vmax) \<and>
               (\<not> v < vmax \<longrightarrow> velocidad_actual a' = v) \<and>
               a' = a\<lparr> velocidad_actual := velocidad_actual a' \<rparr>) \<and>
            ((\<exists>g. gap_adelante a = Some g \<and> flt_ge g 4 \<and> flt_less g 5) \<longrightarrow> a' = a) \<and>
            ((\<exists>g. gap_adelante a = Some g \<and> flt_less g 4) \<and> vmin \<le> v - 20 \<longrightarrow>
               a' = a\<lparr> velocidad_actual := v - 20 \<rparr> \<and>
               snd (snd (ajustar_velocidad a c)) = c + 1) \<and>
            ((\<exists>g. gap_adelante a = Some g \<and> flt_less g 4) \<and> v - 20 < vmin \<longrightarrow>
               a' = a\<lparr> velocidad_actual := - 200, estado := Marcha_atras \<rparr> \<and>
               snd (snd (ajustar_velocidad a c)) = c) \<and>
            (gap_adelante a = Some (Fin 4) \<longrightarrow> a' = a) \<and>
            (gap_adelante a = Some (Fin 5) \<longrightarrow>
               a' = a\<lparr> velocidad_actual := max v vmax \<rparr>) \<and>
            c' = c + int (length (filter rama_congestion aviones))"
proof -
  define a where "a = aviones ! i"
  have ev: "estado a = En_vuelo" using assms a_def by simp
  have nm: "estado a \<noteq> Marcha_atras" using ev by simp
  have a': "fst (actualizar_velocidades aviones c) ! i = fst (ajustar_velocidad a 0)"
    using assms(1) a_def by (simp add: actualizar_cerrado)
  have c1: "rama_congestion a \<Longrightarrow> snd (snd (ajustar_velocidad a c)) = c + 1"
    by (simp add: ajustar_cont)
  have c0: "\<not> rama_congestion a \<Longrightarrow> snd (snd (ajustar_velocidad a c)) = c"
    by (simp add: ajustar_cont)
  have d1: "(\<exists>g. gap_adelante a = Some g \<and> flt_less g 4) \<Longrightarrow>
            vel_min_actual a \<le> velocidad_actual a - 20 \<Longrightarrow> rama_congestion a"
    using nm by (auto simp: rama_congestion_def GAP_MIN_def)
  have d0: "velocidad_actual a - 20 < vel_min_actual a \<Longrightarrow> \<not> rama_congestion a"
    by (auto simp: rama_congestion_def split: option.splits)
  have leader: "gap_adelante a = None \<or> (\<exists>g. gap_adelante a = Some g \<and> flt_ge g 5) \<Longrightarrow>
     fst (ajustar_velocidad a 0) =
       a\<lparr> velocidad_actual := max (velocidad_actual a) (vel_max_actual a) \<rparr>"
    using ajustar_en_vuelo [OF ev] flt_less_ge [of _ 4 5] by (auto split: option.splits)
  have hold: "(\<exists>g. gap_adelante a = Some g \<and> flt_ge g 4 \<and> flt_less g 5) \<Longrightarrow>
     fst (ajustar_velocidad a 0) = a"
  proof -
    assume "\<exists>g. gap_adelante a = Some g \<and> flt_ge g 4 \<and> flt_less g 5"
    then obtain g where g: "gap_adelante a = Some g" "flt_ge g 4" "flt_less g 5" by blast
    have "\<not> flt_less g 4" using g(2) by (cases g) auto
    moreover have "\<not> flt_ge g 5" using g(3) by (cases g) auto
    ultimately show ?thesis using ajustar_en_vuelo [OF ev] g(1) by simp
  qed
  have dec: "(\<exists>g. gap_adelante a = Some g \<and> flt_less g 4) \<Longrightarrow>
     vel_min_actual a \<le> velocidad_actual a - 20 \<Longrightarrow>
     fst (ajustar_velocidad a 0) = a\<lparr> velocidad_actual := velocidad_actual a - 20 \<rparr>"
    using ajustar_en_vuelo [OF ev] by auto
  have rev: "(\<exists>g. gap_adelante a = Some g \<and> flt_less g 4) \<Longrightarrow>
     velocidad_actual a - 20 < vel_min_actual a \<Longrightarrow>
     fst (ajustar_velocidad a 0) = a\<lparr> velocidad_actual := - 200, estado := Marcha_atras \<rparr>"
    using ajustar_en_vuelo [OF ev] by auto
  have g4: "gap_adelante a = Some (Fin 4) \<Longrightarrow> fst (ajustar_velocidad a 0) = a"
    using ajustar_en_vuelo [OF ev] by simp
  have g5: "gap_adelante a = Some (Fin 5) \<Longrightarrow> fst (ajustar_velocidad a 0) =
       a\<lparr> velocidad_actual := max (velocidad_actual a) (vel_max_actual a) \<rparr>"
    using ajustar_en_vuelo [OF ev] by simp
  have len: "length (fst (actualizar_velocidades aviones c)) = length aviones"
    by (simp add: actualizar_cerrado)
  have cnt: "snd (snd (snd (actualizar_velocidades aviones c))) =
       c + int (length (filter rama_congestion aviones))"
    by (simp add: actualizar_cerrado)
  show ?thesis
    unfolding Let_def a_def [symmetric] a'
    using len cnt leader hold dec rev g4 g5 c1 c0 d1 d0 ev
    by (auto simp: max_def)
qed

theorem actualizar_velocidades_por_casos_witness:
  "let aviones = [Avion 1 0 120 \<lparr> velocidad_actual := 200 \<rparr>,
                  Avion 2 1 130 \<lparr> gap_adelante := Some (Fin 4) \<rparr>,
                  Avion 3 2 140 \<lparr> gap_adelante := Some (Fin 3) \<rparr>,
                  Avion 4 3 12 \<lparr> gap_adelante := Some (Fin 3), velocidad_actual := 160 \<rparr>];
       r = actualizar_velocidades aviones 0
   in map estado aviones = [En_vuelo, En_vuelo, En_vuelo, En_vuelo] \<and>
      map velocidad_actual (fst r) = [500, 500, 480, - 200] \<and>
      map estado (fst r) = [En_vuelo, En_vuelo, En_vuelo, Marcha_atras] \<and>
      snd (snd (snd r)) = 1"
  using actualizar_velocidades_por_casos
          [of 0 "[Avion 1 0 120 \<lparr> velocidad_actual := 200 \<rparr>,
                  Avion 2 1 130 \<lparr> gap_adelante := Some (Fin 4) \<rparr>,
                  Avion 3 2 140 \<lparr> gap_adelante := Some (Fin 3) \<rparr>,
                  Avion 4 3 12 \<lparr> gap_adelante := Some (Fin 3), velocidad_actual := 160 \<rparr>]" 0]
    actualizar_velocidades_por_casos
          [of 1 "[Avion 1 0 120 \<lparr> velocidad_actual := 200 \<rparr>,
                  Avion 2 1 130 \<lparr> gap_adelante := Some (Fin 4) \<rparr>,
                  Avion 3 2 140 \<lparr> gap_adelante := Some (Fin 3) \<rparr>,
                  Avion 4 3 12 \<lparr> gap_adelante := Some (Fin 3), velocidad_actual := 160 \<rparr>]" 0]
    actualizar_velocidades_por_casos
          [of 2 "[Avion 1 0 120 \<lparr> velocidad_actual := 200 \<rparr>,
                  Avion 2 1 130 \<lparr> gap_adelante := Some (Fin 4) \<rparr>,
                  Avion 3 2 140 \<lparr> gap_adelante := Some (Fin 3) \<rparr>,
                  Avion 4 3 12 \<lparr> gap_adelante := Some (Fin 3), velocidad_actual := 160 \<rparr>]" 0]
    actualizar_velocidades_por_casos
          [of 3 "[Avion 1 0 120 \<lparr> velocidad_actual := 200 \<rparr>,
                  Avion 2 1 130 \<lparr> gap_adelante := Some (Fin 4) \<rparr>,
                  Avion 3 2 140 \<lparr> gap_adelante := Some (Fin 3) \<rparr>,
                  Avion 4 3 12 \<lparr> gap_adelante := Some (Fin 3), velocidad_actual := 160 \<rparr>]" 0]
  by (simp add: Avion_def actualizar_velocidades_def ajustar_velocidad_def
      velocidad_permitida_def vel_max_actual_def vel_min_actual_def GAP_MIN_def GAP_BUFFER_def
      VEL_MARCHA_ATRAS_def Let_def)

text \<open>
  Claim C2. The pass has no step that lowers a speed above the band maximum: an aircraft
  created at 55 nm flies at 300 kt, one minute later it is at 50 nm, where the band maximum
  is 250 kt, and the pass (no leader) leaves it \<open>En_vuelo\<close> at 300 kt.
\<close>

theorem actualizar_velocidades_no_recorta:
  "let a = avanzar_minuto (Avion 1 0 55) 0 1;
       r = actualizar_velocidades [a] 0;
       a' = fst r ! 0
   in estado a = En_vuelo \<and> posicion a = 50 \<and> velocidad_actual a = 300 \<and>
      gap_adelante a = None \<and>
      estado a' = En_vuelo \<and> posicion a' = 50 \<and> vel_max_actual a' = 250 \<and>
      velocidad_actual a' = 300 \<and> velocidad_actual a' > vel_max_actual a'"
  by (simp add: Avion_def avanzar_minuto_def registrar_estado_def actualizar_velocidades_def
      ajustar_velocidad_def velocidad_permitida_def vel_max_actual_def vel_min_actual_def
      Let_def)

text \<open>
  Claim C10. One pass of \<open>actualizar_velocidades\<close> leaves an aircraft in state
  \<open>Marcha_atras\<close> as it is and collects it in the returned \<open>marcha_atras\<close> list. Every other
  aircraft, whatever its state, comes out either \<open>En_vuelo\<close> (and in the first returned
  list) or \<open>Marcha_atras\<close> (and in the second), with at most its speed and state changed; so
  an aircraft that was \<open>Aterrizado\<close> or \<open>Desviado\<close> does not keep its state.
\<close>

theorem actualizar_velocidades_marco:
  assumes "i < length aviones"
  shows "let a = aviones ! i;
             r = actualizar_velocidades aviones c;
             a' = fst r ! i
         in length (fst r) = length aviones \<and>
            (estado a = Marcha_atras \<longrightarrow> a' = a \<and> a \<in> set (fst (snd (snd r)))) \<and>
            (estado a \<noteq> Marcha_atras \<longrightarrow>
               (estado a' = En_vuelo \<or> estado a' = Marcha_atras) \<and>
               (estado a' = En_vuelo \<longrightarrow> a' \<in> set (fst (snd r))) \<and>
               (estado a' = Marcha_atras \<longrightarrow> a' \<in> set (fst (snd (snd r)))) \<and>
               a' = a\<lparr> velocidad_actual := velocidad_actual a', estado := estado a' \<rparr>) \<and>
            (estado a = Aterrizado \<or> estado a = Desviado \<longrightarrow> estado a' \<noteq> estado a)"
proof -
  define a where "a = aviones ! i"
  define p where "p = (\<lambda>a. fst (ajustar_velocidad a 0))"
  have a': "fst (actualizar_velocidades aviones c) ! i = p a"
    using assms a_def by (simp add: actualizar_cerrado p_def)
  have mem: "p a \<in> set (map p aviones)"
    using assms a_def by (metis length_map nth_map nth_mem)
  have same: "estado a = Marcha_atras \<Longrightarrow> p a = a"
    by (simp add: p_def ajustar_velocidad_def)
  have st: "estado (p a) = En_vuelo \<or> estado (p a) = Marcha_atras"
    using ajustar_estado [of a] by (auto simp: p_def)
  have fr: "estado a \<noteq> Marcha_atras \<Longrightarrow>
      p a = a\<lparr> velocidad_actual := velocidad_actual (p a), estado := estado (p a) \<rparr>"
    unfolding p_def by (rule ajustar_marco)
  have ev: "fst (snd (actualizar_velocidades aviones c)) =
      filter (\<lambda>a. estado a \<noteq> Marcha_atras) (map p aviones)"
    by (simp add: actualizar_cerrado p_def)
  have ma: "fst (snd (snd (actualizar_velocidades aviones c))) =
      filter (\<lambda>a. estado a = Marcha_atras) (map p aviones)"
    by (simp add: actualizar_cerrado p_def)
  have len: "length (fst (actualizar_velocidades aviones c)) = length aviones"
    by (simp add: actualizar_cerrado)
  have m1: "estado (p a) = Marcha_atras \<Longrightarrow>
      p a \<in> set (fst (snd (snd (actualizar_velocidades aviones c))))"
    using mem by (simp add: ma)
  have m2: "estado (p a) = En_vuelo \<Longrightarrow>
      p a \<in> set (fst (snd (actualizar_velocidades aviones c)))"
    using mem by (simp add: ev)
  have m3: "estado a = Marcha_atras \<Longrightarrow>
      a \<in> set (fst (snd (snd (actualizar_velocidades aviones c))))"
    using m1 same by simp
  have t: "estado a = Aterrizado \<or> estado a = Desviado \<Longrightarrow> estado (p a) \<noteq> estado a"
    using st by auto
  show ?thesis
    unfolding Let_def a_def [symmetric] a'
    using len same st fr m1 m2 m3 t by blast
qed

theorem actualizar_velocidades_marco_witness:
  "let aviones = [Avion 1 0 0 \<lparr> estado := Aterrizado \<rparr>,
                  Avion 2 1 60 \<lparr> estado := Marcha_atras, velocidad_actual := - 200,
                                 gap_adelante := Some (Fin 1) \<rparr>,
                  Avion 3 2 70 \<lparr> estado := Desviado, velocidad_actual := 0,
                                 gap_adelante := Some (Fin 1) \<rparr>];
       r = actualizar_velocidades aviones 0
   in fst r ! 1 = aviones ! 1 \<and> fst (snd (snd r)) = [aviones ! 1, fst r ! 2] \<and>
      map estado (fst r) = [En_vuelo, Marcha_atras, Marcha_atras] \<and>
      map velocidad_actual (fst r) = [150, - 200, - 200]"
  using actualizar_velocidades_marco
          [of 1 "[Avion 1 0 0 \<lparr> estado := Aterrizado \<rparr>,
                  Avion 2 1 60 \<lparr> estado := Marcha_atras, velocidad_actual := - 200,
                                 gap_adelante := Some (Fin 1) \<rparr>,
                  Avion 3 2 70 \<lparr> estado := Desviado, velocidad_actual := 0,
                                 gap_adelante := Some (Fin 1) \<rparr>]" 0]
    actualizar_velocidades_marco
          [of 0 "[Avion 1 0 0 \<lparr> estado := Aterrizado \<rparr>,
                  Avion 2 1 60 \<lparr> estado := Marcha_atras, velocidad_actual := - 200,
                                 gap_adelante := Some (Fin 1) \<rparr>,
                  Avion 3 2 70 \<lparr> estado := Desviado, velocidad_actual := 0,
                                 gap_adelante := Some (Fin 1) \<rparr>]" 0]
    actualizar_velocidades_marco
          [of 2 "[Avion 1 0 0 \<lparr> estado := Aterrizado \<rparr>,
                  Avion 2 1 60 \<lparr> estado := Marcha_atras, velocidad_actual := - 200,
                                 gap_adelante := Some (Fin 1) \<rparr>,
                  Avion 3 2 70 \<lparr> estado := Desviado, velocidad_actual := 0,
                                 gap_adelante := Some (Fin 1) \<rparr>]" 0]
  by (simp add: Avion_def actualizar_velocidades_def ajustar_velocidad_def
      velocidad_permitida_def vel_max_actual_def vel_min_actual_def GAP_MIN_def GAP_BUFFER_def
      VEL_MARCHA_ATRAS_def Let_def)

section \<open>Properties of the gap computation\<close>

lemma gaps_paso_cerrado:
  assumes "length xs = length s" and "xs ! i = s ! i"
    and "0 < i \<Longrightarrow> mismos_datos (xs ! (i - 1)) (s ! (i - 1))"
    and "i \<noteq> length s - 1 \<Longrightarrow> mismos_datos (xs ! (i + 1)) (s ! (i + 1))"
  shows "gaps_paso xs i = Inr (gaps_de s i)"
  using assms
  by (auto simp: gaps_paso_def gaps_de_def mismos_datos_def py_truediv_def Let_def)

lemma mismos_gaps_de: "mismos_datos (gaps_de s i) (s ! i)"
  by (simp add: gaps_de_def mismos_datos_def)

lemma gaps_bucle_cerrado:
  assumes "k \<le> length s" and "length xs = length s"
    and "\<forall>j < length s. mismos_datos (xs ! j) (s ! j)"
    and "\<forall>j. k \<le> j \<and> j < length s \<longrightarrow> xs ! j = s ! j"
  shows "\<exists>ys. gaps_bucle [k ..< length s] xs = Inr ys \<and> length ys = length s \<and>
           (\<forall>j < k. ys ! j = xs ! j) \<and>
           (\<forall>j. k \<le> j \<and> j < length s \<longrightarrow> ys ! j = gaps_de s j)"
  using assms
proof (induction "length s - k" arbitrary: k xs)
  case 0
  then have "k = length s" by simp
  then show ?case using 0 by auto
next
  case (Suc m)
  then have kl: "k < length s" by simp
  have up: "[k ..< length s] = k # [Suc k ..< length s]"
    using kl by (simp add: upt_conv_Cons)
  have step: "gaps_paso xs k = Inr (gaps_de s k)"
  proof (rule gaps_paso_cerrado)
    show "length xs = length s" by (rule Suc.prems(2))
    show "xs ! k = s ! k" using Suc.prems(4) kl by simp
    show "0 < k \<Longrightarrow> mismos_datos (xs ! (k - 1)) (s ! (k - 1))"
      using Suc.prems(3) kl by simp
    show "k \<noteq> length s - 1 \<Longrightarrow> mismos_datos (xs ! (k + 1)) (s ! (k + 1))"
      using Suc.prems(3) kl by simp
  qed
  define xs' where "xs' = xs[k := gaps_de s k]"
  have l': "length xs' = length s" using Suc.prems(2) by (simp add: xs'_def)
  have m': "\<forall>j < length s. mismos_datos (xs' ! j) (s ! j)"
    using Suc.prems(2,3) kl mismos_gaps_de [of s k]
    by (auto simp: xs'_def nth_list_update)
  have e': "\<forall>j. Suc k \<le> j \<and> j < length s \<longrightarrow> xs' ! j = s ! j"
    using Suc.prems(4) by (auto simp: xs'_def nth_list_update)
  have "m = length s - Suc k" using Suc.hyps(2) by simp
  from Suc.hyps(1) [OF this _ l' m' e'] kl
  obtain ys where ys: "gaps_bucle [Suc k ..< length s] xs' = Inr ys" "length ys = length s"
      "\<forall>j < Suc k. ys ! j = xs' ! j"
      "\<forall>j. Suc k \<le> j \<and> j < length s \<longrightarrow> ys ! j = gaps_de s j"
    by auto
  have r: "gaps_bucle [k ..< length s] xs = Inr ys"
    using up step ys(1) by (simp add: xs'_def)
  have a: "\<forall>j < k. ys ! j = xs ! j"
    using ys(3) by (auto simp: xs'_def nth_list_update)
  have b: "ys ! k = gaps_de s k"
    using ys(3) kl Suc.prems(2) by (simp add: xs'_def)
  have c: "\<forall>j. k \<le> j \<and> j < length s \<longrightarrow> ys ! j = gaps_de s j"
    using ys(4) b by (metis le_antisym not_less_eq_eq)
  show ?case using r ys(2) a c by blast
qed

lemma actualizar_gaps_cerrado:
  "\<exists>r. actualizar_gaps fila = Inr r \<and> length r = length fila \<and>
     (\<forall>i < length fila. r ! i = gaps_de (sort_key (\<lambda>a. (posicion a, num a)) fila) i)"
proof -
  define s where "s = sort_key (\<lambda>a. (posicion a, num a)) fila"
  have "\<exists>ys. gaps_bucle [0 ..< length s] s = Inr ys \<and> length ys = length s \<and>
           (\<forall>j < 0. ys ! j = s ! j) \<and>
           (\<forall>j. 0 \<le> j \<and> j < length s \<longrightarrow> ys ! j = gaps_de s j)"
    by (rule gaps_bucle_cerrado) (simp_all add: mismos_datos_def)
  then show ?thesis
    by (auto simp: actualizar_gaps_def s_def Let_def)
qed


text \<open>
  Claim C3. \<open>actualizar_gaps\<close> returns (it does not fail), and with \<open>s\<close> the queue sorted
  ascending by \<open>(posicion, num)\<close> and \<open>r\<close> the result: \<open>r\<close> is \<open>s\<close> with only the four gap fields
  rewritten; the first aircraft has no lead and no gap ahead, the last no tail and no gap
  behind; an aircraft \<open>i > 0\<close> has the id of \<open>s ! (i - 1)\<close> as lead and as gap ahead the distance
  to it divided by the leader's speed, times 60, when that speed is positive, and infinity
  otherwise; an aircraft \<open>i < n - 1\<close> has the id of \<open>s ! (i + 1)\<close> as tail and as gap behind the
  distance to it divided by its own speed, times 60, when that speed is positive, and
  infinity otherwise.
\<close>

theorem actualizar_gaps_correcto:
  "let s = sort_key (\<lambda>a. (posicion a, num a)) fila; n = length s
   in sorted (map (\<lambda>a. (posicion a, num a)) s) \<and> set s = set fila \<and> n = length fila \<and>
      (\<exists>r. actualizar_gaps fila = Inr r \<and> length r = n \<and>
         (\<forall>i < n.
            r ! i = (s ! i)\<lparr> lead_id := lead_id (r ! i), gap_adelante := gap_adelante (r ! i),
                             tail_id := tail_id (r ! i), gap_atras := gap_atras (r ! i) \<rparr> \<and>
            (i = 0 \<longrightarrow> lead_id (r ! i) = None \<and> gap_adelante (r ! i) = None) \<and>
            (i = n - 1 \<longrightarrow> tail_id (r ! i) = None \<and> gap_atras (r ! i) = None) \<and>
            (0 < i \<longrightarrow>
               lead_id (r ! i) = Some (num (s ! (i - 1))) \<and>
               (velocidad_actual (s ! (i - 1)) > 0 \<longrightarrow>
                  gap_adelante (r ! i) =
                    Some (Fin ((posicion (s ! i) - posicion (s ! (i - 1)))
                                / velocidad_actual (s ! (i - 1)) * 60))) \<and>
               (velocidad_actual (s ! (i - 1)) \<le> 0 \<longrightarrow> gap_adelante (r ! i) = Some PInf)) \<and>
            (i < n - 1 \<longrightarrow>
               tail_id (r ! i) = Some (num (s ! (i + 1))) \<and>
               (velocidad_actual (s ! i) > 0 \<longrightarrow>
                  gap_atras (r ! i) =
                    Some (Fin ((posicion (s ! (i + 1)) - posicion (s ! i))
                                / velocidad_actual (s ! i) * 60))) \<and>
               (velocidad_actual (s ! i) \<le> 0 \<longrightarrow> gap_atras (r ! i) = Some PInf))))"
proof -
  define s where "s = sort_key (\<lambda>a. (posicion a, num a)) fila"
  obtain r where r: "actualizar_gaps fila = Inr r" "length r = length fila"
      "\<forall>i < length fila. r ! i = gaps_de s i"
    using actualizar_gaps_cerrado [of fila] s_def by blast
  have n: "length s = length fila" by (simp add: s_def)
  have srt: "sorted (map (\<lambda>a. (posicion a, num a)) s)" by (simp add: s_def)
  have st: "set s = set fila" by (simp add: s_def)
  have each: "\<forall>i < length s.
            r ! i = (s ! i)\<lparr> lead_id := lead_id (r ! i), gap_adelante := gap_adelante (r ! i),
                             tail_id := tail_id (r ! i), gap_atras := gap_atras (r ! i) \<rparr> \<and>
            (i = 0 \<longrightarrow> lead_id (r ! i) = None \<and> gap_adelante (r ! i) = None) \<and>
            (i = length s - 1 \<longrightarrow> tail_id (r ! i) = None \<and> gap_atras (r ! i) = None) \<and>
            (0 < i \<longrightarrow>
               lead_id (r ! i) = Some (num (s ! (i - 1))) \<and>
               (velocidad_actual (s ! (i - 1)) > 0 \<longrightarrow>
                  gap_adelante (r ! i) =
                    Some (Fin ((posicion (s ! i) - posicion (s ! (i - 1)))
                                / velocidad_actual (s ! (i - 1)) * 60))) \<and>
               (velocidad_actual (s ! (i - 1)) \<le> 0 \<longrightarrow> gap_adelante (r ! i) = Some PInf)) \<and>
            (i < length s - 1 \<longrightarrow>
               tail_id (r ! i) = Some (num (s ! (i + 1))) \<and>
               (velocidad_actual (s ! i) > 0 \<longrightarrow>
                  gap_atras (r ! i) =
                    Some (Fin ((posicion (s ! (i + 1)) - posicion (s ! i))
                                / velocidad_actual (s ! i) * 60))) \<and>
               (velocidad_actual (s ! i) \<le> 0 \<longrightarrow> gap_atras (r ! i) = Some PInf))"
  proof (intro allI impI)
    fix i assume "i < length s"
    then have eq: "r ! i = gaps_de s i" using r(3) n by simp
    show "r ! i = (s ! i)\<lparr> lead_id := lead_id (r ! i), gap_adelante := gap_adelante (r ! i),
                             tail_id := tail_id (r ! i), gap_atras := gap_atras (r ! i) \<rparr> \<and>
            (i = 0 \<longrightarrow> lead_id (r ! i) = None \<and> gap_adelante (r ! i) = None) \<and>
            (i = length s - 1 \<longrightarrow> tail_id (r ! i) = None \<and> gap_atras (r ! i) = None) \<and>
            (0 < i \<longrightarrow>
               lead_id (r ! i) = Some (num (s ! (i - 1))) \<and>
               (velocidad_actual (s ! (i - 1)) > 0 \<longrightarrow>
                  gap_adelante (r ! i) =
                    Some (Fin ((posicion (s ! i) - posicion (s ! (i - 1)))
                                / velocidad_actual (s ! (i - 1)) * 60))) \<and>
               (velocidad_actual (s ! (i - 1)) \<le> 0 \<longrightarrow> gap_adelante (r ! i) = Some PInf)) \<and>
            (i < length s - 1 \<longrightarrow>
               tail_id (r ! i) = Some (num (s ! (i + 1))) \<and>
               (velocidad_actual (s ! i) > 0 \<longrightarrow>
                  gap_atras (r ! i) =
                    Some (Fin ((posicion (s ! (i + 1)) - posicion (s ! i))
                                / velocidad_actual (s ! i) * 60))) \<and>
               (velocidad_actual (s ! i) \<le> 0 \<longrightarrow> gap_atras (r ! i) = Some PInf))"
      unfolding eq by (auto simp: gaps_de_def)
  qed
  show ?thesis
    unfolding Let_def s_def [symmetric]
    using srt st n r(1,2) each by auto
qed

theorem actualizar_gaps_correcto_witness:
  "let fila = [Avion 2 0 30 \<lparr> velocidad_actual := 0 \<rparr>, Avion 1 0 10, Avion 3 0 30]
   in case actualizar_gaps fila of
        Inl e \<Rightarrow> False
      | Inr r \<Rightarrow>
          map num r = [1, 2, 3] \<and>
          map lead_id r = [None, Some 1, Some 2] \<and>
          map gap_adelante r = [None, Some (Fin 6), Some PInf] \<and>
          map tail_id r = [Some 2, Some 3, None] \<and>
          map gap_atras r = [Some (Fin 6), Some PInf, None]"
  using actualizar_gaps_correcto
          [of "[Avion 2 0 30 \<lparr> velocidad_actual := 0 \<rparr>, Avion 1 0 10, Avion 3 0 30]"]
  by (simp add: Avion_def actualizar_gaps_def gaps_paso_def py_truediv_def
      velocidad_permitida_def Let_def)

text \<open>
  Claim C7. The gap computation guards both of its divisions, but the wind check divides
  by the speed unguarded. A diverted aircraft
  (speed 0) that is still in the queue behind a leader at a gap of 4.5 minutes is put back
  to \<open>En_vuelo\<close> by the speed pass with its speed 0, and \<open>cerrar_AEP\<close> then fails with
  \<open>ZeroDivisionError\<close>.
\<close>

theorem cerrar_AEP_division_por_cero:
  "let A = Avion 1 0 10;
       B = marcar_desviado (Avion 2 1 25)
   in case actualizar_gaps [B, A] of
        Inl e \<Rightarrow> False
      | Inr fila \<Rightarrow>
          (let fila' = fst (actualizar_velocidades fila 0)
           in map num fila' = [1, 2] \<and>
              map gap_adelante fila = [None, Some (Fin (9 / 2))] \<and>
              map estado fila' = [En_vuelo, En_vuelo] \<and>
              map velocidad_actual fila' = [200, 0] \<and>
              cerrar_AEP fila' (1 / 10) (\<lambda>k. 0) = Inl ZeroDivisionError)"
  by (simp add: Avion_def marcar_desviado_def actualizar_gaps_def gaps_paso_def py_truediv_def
      velocidad_permitida_def actualizar_velocidades_def ajustar_velocidad_def
      vel_max_actual_def vel_min_actual_def GAP_MIN_def GAP_BUFFER_def VEL_MARCHA_ATRAS_def
      cerrar_AEP_def Let_def)

section \<open>Properties of the movement\<close>

lemma vel_permitida_pos: "0 \<le> fst (velocidad_permitida d)" "120 \<le> snd (velocidad_permitida d)"
  by (simp_all add: velocidad_permitida_def)

lemma avanzar_inv:
  assumes "0 \<le> posicion a" and "estado a \<noteq> Marcha_atras \<longrightarrow> 0 \<le> velocidad_actual a"
  shows "0 \<le> posicion (avanzar_minuto a m dt) \<and>
         (estado (avanzar_minuto a m dt) \<noteq> Marcha_atras \<longrightarrow>
            0 \<le> velocidad_actual (avanzar_minuto a m dt))"
  using assms by (auto simp: avanzar_minuto_def registrar_estado_def Let_def)

lemma ajustar_inv:
  assumes "0 \<le> posicion a" and "estado a \<noteq> Marcha_atras \<longrightarrow> 0 \<le> velocidad_actual a"
  shows "0 \<le> posicion (fst (ajustar_velocidad a c)) \<and>
         (estado (fst (ajustar_velocidad a c)) \<noteq> Marcha_atras \<longrightarrow>
            0 \<le> velocidad_actual (fst (ajustar_velocidad a c)))"
proof -
  have "120 \<le> vel_min_actual a" "0 \<le> vel_max_actual a"
    using vel_permitida_pos by (simp_all add: vel_min_actual_def vel_max_actual_def)
  then show ?thesis using assms
    by (auto simp: ajustar_velocidad_def Let_def split: option.splits)
qed

lemma mover_inv:
  assumes "0 \<le> posicion a" and "estado a \<noteq> Marcha_atras \<longrightarrow> 0 \<le> velocidad_actual a"
    and "0 \<le> dt"
  shows "0 \<le> posicion (fst (mover_avion a m dt c)) \<and>
         (estado (fst (mover_avion a m dt c)) \<noteq> Marcha_atras \<longrightarrow>
            0 \<le> velocidad_actual (fst (mover_avion a m dt c)))"
proof (cases "estado a = En_vuelo")
  case True
  then show ?thesis using avanzar_inv [OF assms(1,2)] by (simp add: mover_avion_def)
next
  case False
  then show ?thesis using assms
    by (auto simp: mover_avion_def registrar_estado_def VEL_MARCHA_ATRAS_def Let_def
        split: prod.splits)
qed

lemma alcanzable_inv:
  "alcanzable a \<Longrightarrow>
     0 \<le> posicion a \<and> (estado a \<noteq> Marcha_atras \<longrightarrow> 0 \<le> velocidad_actual a)"
proof (induction rule: alcanzable.induct)
  case (al_nuevo d n t)
  then show ?case using vel_permitida_pos(1) [of d] by (simp add: Avion_def)
next
  case (al_avanzar a minuto dt)
  then show ?case using avanzar_inv [of a minuto dt] by blast
next
  case (al_desviado a)
  then show ?case by (simp add: marcar_desviado_def)
next
  case (al_marcha_atras a)
  then show ?case by (simp add: iniciar_marcha_atras_def)
next
  case (al_gaps a l g t' h)
  then show ?case by simp
next
  case (al_velocidad a c)
  then show ?case using ajustar_inv [of a c] by blast
next
  case (al_mover a dt minuto c)
  then show ?case using mover_inv [of a dt minuto c] by blast
next
  case (al_viento a)
  then show ?case by simp
qed

lemma avanzar_terminal:
  "estado a = Aterrizado \<or> estado a = Desviado \<Longrightarrow>
   avanzar_minuto a m dt =
     a\<lparr> historial_posiciones := historial_posiciones a @
         [\<lparr> r_minuto = m, r_pos = posicion a, r_vel = 0, r_estado = estado a,
            r_gap_adelante = gap_adelante a, r_lead_id = lead_id a,
            r_gap_atras = gap_atras a, r_tail_id = tail_id a \<rparr>] \<rparr>"
  by (auto simp: avanzar_minuto_def registrar_estado_def)

lemma avanzar_terminal_fold:
  "estado a = Aterrizado \<or> estado a = Desviado \<Longrightarrow>
   fold (\<lambda>(m, dt) b. avanzar_minuto b m dt) ms a =
     a\<lparr> historial_posiciones := historial_posiciones a @
         map (\<lambda>(m, dt). \<lparr> r_minuto = m, r_pos = posicion a, r_vel = 0, r_estado = estado a,
            r_gap_adelante = gap_adelante a, r_lead_id = lead_id a,
            r_gap_atras = gap_atras a, r_tail_id = tail_id a \<rparr>) ms \<rparr>"
proof (induction ms arbitrary: a)
  case Nil
  then show ?case by simp
next
  case (Cons x ms)
  obtain m dt where x: "x = (m, dt)" by (cases x)
  define b where "b = avanzar_minuto a m dt"
  have b: "b = a\<lparr> historial_posiciones := historial_posiciones a @
         [\<lparr> r_minuto = m, r_pos = posicion a, r_vel = 0, r_estado = estado a,
            r_gap_adelante = gap_adelante a, r_lead_id = lead_id a,
            r_gap_atras = gap_atras a, r_tail_id = tail_id a \<rparr>] \<rparr>"
    unfolding b_def using Cons.prems by (rule avanzar_terminal)
  have "estado b = Aterrizado \<or> estado b = Desviado" using Cons.prems b by simp
  from Cons.IH [OF this] show ?case
    using x b by (simp add: b_def [symmetric])
qed

lemma avanzar_no_aumenta:
  assumes "estado a = En_vuelo" and "0 \<le> posicion a" and "0 \<le> velocidad_actual a"
    and "0 \<le> dt"
  shows "posicion (avanzar_minuto a m dt) \<le> posicion a"
proof -
  have "0 \<le> velocidad_actual a / 60 * dt" using assms(3,4) by simp
  then show ?thesis using assms(1,2)
    by (auto simp: avanzar_minuto_def registrar_estado_def Let_def max_def)
qed

text \<open>
  Claim C4. In every state an aircraft can be in, its position is not negative, and it is
  not negative after a call of \<open>avanzar_minuto\<close> either. While the state is \<open>En_vuelo\<close>, one call
  of \<open>avanzar_minuto\<close> (with \<open>dt\<close> not negative) does not increase the position. Once the state
  is \<open>Aterrizado\<close> or \<open>Desviado\<close>, any number of calls of \<open>avanzar_minuto\<close> changes nothing but
  the history, to which every call appends one entry with the position the aircraft had
  and speed 0.
\<close>

theorem posicion_invariante:
  assumes "alcanzable a" and "0 \<le> dt"
  shows "0 \<le> posicion a \<and> 0 \<le> posicion (avanzar_minuto a minuto dt) \<and>
         (estado a = En_vuelo \<longrightarrow> posicion (avanzar_minuto a minuto dt) \<le> posicion a) \<and>
         (estado a = Aterrizado \<or> estado a = Desviado \<longrightarrow>
            (\<forall>ms. fold (\<lambda>(m, dt') b. avanzar_minuto b m dt') ms a =
               a\<lparr> historial_posiciones := historial_posiciones a @
                   map (\<lambda>(m, dt'). \<lparr> r_minuto = m, r_pos = posicion a, r_vel = 0,
                      r_estado = estado a, r_gap_adelante = gap_adelante a,
                      r_lead_id = lead_id a, r_gap_atras = gap_atras a,
                      r_tail_id = tail_id a \<rparr>) ms \<rparr>))"
proof -
  have inv: "0 \<le> posicion a" "estado a \<noteq> Marcha_atras \<longrightarrow> 0 \<le> velocidad_actual a"
    using alcanzable_inv [OF assms(1)] by simp_all
  have p': "0 \<le> posicion (avanzar_minuto a minuto dt)"
    using avanzar_inv [OF inv] by simp
  have mono: "estado a = En_vuelo \<Longrightarrow> posicion (avanzar_minuto a minuto dt) \<le> posicion a"
    using avanzar_no_aumenta [of a dt minuto] inv assms(2) by simp
  show ?thesis using inv(1) p' mono avanzar_terminal_fold [of a] by blast
qed

theorem posicion_invariante_witness:
  "let a = Avion 1 0 2;
       b = avanzar_minuto a 0 1;
       c = fold (\<lambda>(m, dt') b. avanzar_minuto b m dt') [(1, 1), (2, 1)] b
   in estado a = En_vuelo \<and> posicion a = 2 \<and> estado b = Aterrizado \<and> posicion b = 0 \<and>
      posicion c = 0 \<and> map r_vel (historial_posiciones c) = [150, 0, 0, 0] \<and>
      map r_pos (historial_posiciones c) = [2, 0, 0, 0]"
  using posicion_invariante [OF al_avanzar [OF al_nuevo [of 2 1 0], of 0 1], of 1 1]
    posicion_invariante [OF al_nuevo [of 2 1 0], of 1 0]
  by (simp add: Avion_def avanzar_minuto_def registrar_estado_def velocidad_permitida_def
      Let_def)

section \<open>Properties of the reverse flight\<close>

lemma mover_fst: "fst (mover_avion a m dt c) = fst (mover_avion a m dt 0)"
  by (simp add: mover_avion_def Let_def split: prod.splits)

lemma mover_snd: "snd (mover_avion a m dt c) = c + (if sale_del_radar dt a then 1 else 0)"
  by (auto simp: mover_avion_def sale_del_radar_def Let_def split: prod.splits)

lemma avanzar_aviones_cerrado:
  "avanzar_aviones_un_minuto xs m dt c =
     (map (\<lambda>a. fst (mover_avion a m dt 0)) xs,
      c + int (length (filter (sale_del_radar dt) xs)))"
proof (induction xs arbitrary: c)
  case Nil
  then show ?case by simp
next
  case (Cons a xs)
  obtain a' c' where r: "mover_avion a m dt c = (a', c')" by (cases "mover_avion a m dt c")
  have 1: "a' = fst (mover_avion a m dt 0)" using mover_fst [of a m dt c] r by simp
  have 2: "c' = c + (if sale_del_radar dt a then 1 else 0)" using mover_snd [of a m dt c] r by simp
  show ?case using r 1 2 Cons.IH [of c'] by simp
qed

lemma mover_marcha_atras:
  assumes "estado a = Marcha_atras"
  shows "fst (mover_avion a m dt 0) =
     (let p = posicion a + VEL_MARCHA_ATRAS / 60 * dt;
          e = (if p > DISTANCIA_INICIAL then Desviado else Marcha_atras);
          v = (if p > DISTANCIA_INICIAL then 0 else velocidad_actual a)
      in a\<lparr> posicion := p, estado := e, velocidad_actual := v,
            historial_posiciones := historial_posiciones a @
              [\<lparr> r_minuto = m, r_pos = p, r_vel = v, r_estado = e,
                 r_gap_adelante = gap_adelante a, r_lead_id = lead_id a,
                 r_gap_atras = gap_atras a, r_tail_id = tail_id a \<rparr>] \<rparr>)"
  using assms
  by (simp add: mover_avion_def registrar_estado_def Let_def)

text \<open>
  Claim C5. For an aircraft in state \<open>Marcha_atras\<close>, one call of
  \<open>avanzar_aviones_un_minuto\<close> adds exactly \<open>VEL_MARCHA_ATRAS / 60 * dt\<close> to its position. If the
  new position is above \<open>DISTANCIA_INICIAL\<close> the aircraft becomes \<open>Desviado\<close> with speed 0 in that
  same call and the counter of diverted aircraft goes up by one; otherwise state, speed
  and counter stay as they were. Either way one history entry is appended. Started at 95 nm,
  the aircraft is at 295/3 nm and still reversing after one minute, and at 305/3 nm and
  diverted after two.
\<close>

theorem marcha_atras_avanza:
  assumes "i < length activos" and "estado (activos ! i) = Marcha_atras"
  shows "let a = activos ! i;
             r = avanzar_aviones_un_minuto activos minuto dt desviados;
             a' = fst r ! i
         in length (fst r) = length activos \<and>
            posicion a' = posicion a + VEL_MARCHA_ATRAS / 60 * dt \<and>
            posicion a' = posicion a + 200 / 60 * dt \<and>
            (posicion a' > DISTANCIA_INICIAL \<longrightarrow>
               estado a' = Desviado \<and> velocidad_actual a' = 0 \<and>
               snd (mover_avion a minuto dt desviados) = desviados + 1) \<and>
            (\<not> posicion a' > DISTANCIA_INICIAL \<longrightarrow>
               estado a' = Marcha_atras \<and> velocidad_actual a' = velocidad_actual a \<and>
               snd (mover_avion a minuto dt desviados) = desviados) \<and>
            historial_posiciones a' = historial_posiciones a @
              [\<lparr> r_minuto = minuto, r_pos = posicion a', r_vel = velocidad_actual a',
                 r_estado = estado a', r_gap_adelante = gap_adelante a,
                 r_lead_id = lead_id a, r_gap_atras = gap_atras a,
                 r_tail_id = tail_id a \<rparr>] \<and>
            snd r = desviados + int (length (filter (sale_del_radar dt) activos))"
proof -
  define a where "a = activos ! i"
  have ma: "estado a = Marcha_atras" using assms(2) a_def by simp
  have a': "fst (avanzar_aviones_un_minuto activos minuto dt desviados) ! i =
      fst (mover_avion a minuto dt 0)"
    using assms(1) a_def by (simp add: avanzar_aviones_cerrado)
  have len: "length (fst (avanzar_aviones_un_minuto activos minuto dt desviados)) =
      length activos"
    by (simp add: avanzar_aviones_cerrado)
  have cnt: "snd (avanzar_aviones_un_minuto activos minuto dt desviados) =
      desviados + int (length (filter (sale_del_radar dt) activos))"
    by (simp add: avanzar_aviones_cerrado)
  have s: "sale_del_radar dt a =
      (posicion a + VEL_MARCHA_ATRAS / 60 * dt > DISTANCIA_INICIAL)"
    using ma by (simp add: sale_del_radar_def)
  show ?thesis
    unfolding Let_def a_def [symmetric] a' mover_marcha_atras [OF ma] mover_snd s
    using len cnt by (simp add: VEL_MARCHA_ATRAS_def)
qed

theorem marcha_atras_avanza_witness:
  "let a = Avion 7 0 95 \<lparr> estado := Marcha_atras, velocidad_actual := - 200 \<rparr>;
       r1 = avanzar_aviones_un_minuto [a] 10 1 0;
       r2 = avanzar_aviones_un_minuto (fst r1) 11 1 (snd r1)
   in map posicion (fst r1) = [295 / 3] \<and> map estado (fst r1) = [Marcha_atras] \<and>
      map velocidad_actual (fst r1) = [- 200] \<and> snd r1 = 0 \<and>
      map posicion (fst r2) = [305 / 3] \<and> map estado (fst r2) = [Desviado] \<and>
      map velocidad_actual (fst r2) = [0] \<and> snd r2 = 1"
  using marcha_atras_avanza
          [of 0 "[Avion 7 0 95 \<lparr> estado := Marcha_atras, velocidad_actual := - 200 \<rparr>]" 10 1 0]
  by (simp add: Avion_def mover_avion_def registrar_estado_def velocidad_permitida_def
      VEL_MARCHA_ATRAS_def DISTANCIA_INICIAL_def Let_def)

section \<open>Properties of the storm window\<close>

lemma py_int_menor: "(py_int x < 30) = (x < 30)"
  by (auto simp: py_int_def floor_less_iff ceiling_less_iff)

lemma py_int_cota: "0 \<le> x \<Longrightarrow> real_of_int (py_int x) \<le> x"
  by (simp add: py_int_def)

text \<open>
  Claim C9. A horizon of less than 30 minutes makes \<open>Horario_Tormenta\<close> fail with
  \<open>ValueError\<close>. For a horizon of at least 30 minutes, and whatever value in \<open>[low, high)\<close> the
  random draw gives, it returns 30 consecutive integer minutes, all inside
  \<open>[0, tiempo_horas * 60)\<close>. For a horizon of one hour the window lies in \<open>[0, 60)\<close>.
\<close>

theorem Horario_Tormenta_ventana:
  assumes "\<forall>low high. low < high \<longrightarrow> low \<le> randint low high \<and> randint low high < high"
  shows "(tiempo_horas * 60 < 30 \<longrightarrow> Horario_Tormenta tiempo_horas randint = Inl ValueError) \<and>
         (30 \<le> tiempo_horas * 60 \<longrightarrow>
            (\<exists>inicio. Horario_Tormenta tiempo_horas randint = Inr [inicio .. inicio + 29] \<and>
               length [inicio .. inicio + 29] = 30 \<and> 0 \<le> inicio \<and>
               (\<forall>m \<in> set [inicio .. inicio + 29]. 0 \<le> m \<and> real_of_int m < tiempo_horas * 60)))"
proof (intro conjI impI)
  assume "tiempo_horas * 60 < 30"
  then show "Horario_Tormenta tiempo_horas randint = Inl ValueError"
    by (simp add: Horario_Tormenta_def py_int_menor Let_def)
next
  assume h: "30 \<le> tiempo_horas * 60"
  define mx where "mx = py_int (tiempo_horas * 60)"
  define inicio where "inicio = randint 0 (mx - 30 + 1)"
  have mx30: "\<not> mx < 30" using h py_int_menor [of "tiempo_horas * 60"] by (simp add: mx_def)
  have mxle: "real_of_int mx \<le> tiempo_horas * 60"
    unfolding mx_def using h by (intro py_int_cota) simp
  have "(0::int) < mx - 30 + 1" using mx30 by simp
  then have r: "0 \<le> inicio" "inicio < mx - 30 + 1" using assms by (simp_all add: inicio_def)
  have eq: "Horario_Tormenta tiempo_horas randint = Inr [inicio .. inicio + 29]"
    using mx30
    by (simp add: Horario_Tormenta_def Let_def mx_def [symmetric] inicio_def add.commute)
  have len: "length [inicio .. inicio + 29] = 30" by simp
  have rng: "\<forall>m \<in> set [inicio .. inicio + 29]. 0 \<le> m \<and> real_of_int m < tiempo_horas * 60"
  proof
    fix m assume "m \<in> set [inicio .. inicio + 29]"
    then have m: "inicio \<le> m" "m \<le> inicio + 29" by simp_all
    then have "m < mx" using r(2) by simp
    then have "real_of_int m < real_of_int mx" by simp
    then show "0 \<le> m \<and> real_of_int m < tiempo_horas * 60" using m(1) r(1) mxle by simp
  qed
  show "\<exists>inicio. Horario_Tormenta tiempo_horas randint = Inr [inicio .. inicio + 29] \<and>
               length [inicio .. inicio + 29] = 30 \<and> 0 \<le> inicio \<and>
               (\<forall>m \<in> set [inicio .. inicio + 29]. 0 \<le> m \<and> real_of_int m < tiempo_horas * 60)"
    using eq len r(1) rng by blast
qed

theorem Horario_Tormenta_ventana_witness:
  "Horario_Tormenta 1 (\<lambda>low high. high - 1) = Inr [30 .. 59] \<and>
   length [30 .. 59 :: int] = 30 \<and> (0::int) \<le> 30 \<and> (59::int) < 60 \<and>
   Horario_Tormenta (1 / 4) (\<lambda>low high. high - 1) = Inl ValueError"
  using Horario_Tormenta_ventana [of "\<lambda>low high. high - 1" 1]
    Horario_Tormenta_ventana [of "\<lambda>low high. high - 1" "1 / 4"]
  by (simp add: Horario_Tormenta_def py_int_def Let_def)

section \<open>Properties of the time to land and the feasibility check\<close>

lemma longitud_bits_cota: "n < 2 ^ longitud_bits n"
proof (induction n rule: longitud_bits.induct)
  case (1 n)
  show ?case
  proof (cases "n = 0")
    case True
    then show ?thesis by (subst longitud_bits.simps) simp
  next
    case False
    have "n div 2 < 2 ^ longitud_bits (n div 2)" using "1.IH" [OF False] .
    then have "n < 2 * 2 ^ longitud_bits (n div 2)" by linarith
    moreover have "longitud_bits n = Suc (longitud_bits (n div 2))"
      using False by (subst longitud_bits.simps) simp
    ultimately show ?thesis by simp
  qed
qed

lemma longitud_bits_piso: "n \<noteq> 0 \<Longrightarrow> 2 ^ (longitud_bits n - 1) \<le> n"
proof (induction n rule: longitud_bits.induct)
  case (1 n)
  have s: "longitud_bits n = Suc (longitud_bits (n div 2))"
    using "1.prems" by (subst longitud_bits.simps) simp
  show ?case
  proof (cases "n div 2 = 0")
    case True
    then have "longitud_bits (n div 2) = 0" by (subst longitud_bits.simps) simp
    then show ?thesis using s "1.prems" by simp
  next
    case False
    have ih: "2 ^ (longitud_bits (n div 2) - 1) \<le> n div 2"
      using "1.IH" [OF "1.prems" False] .
    have "longitud_bits (n div 2) \<noteq> 0"
      using False by (subst longitud_bits.simps) simp
    then obtain k where k: "longitud_bits (n div 2) = Suc k"
      by (cases "longitud_bits (n div 2)") auto
    have "(2::nat) ^ Suc k \<le> 2 * (n div 2)" using ih k by simp
    also have "\<dots> \<le> n" by simp
    finally show ?thesis using s k by simp
  qed
qed













lemma longitud_bits_pos: "n \<noteq> 0 \<Longrightarrow> \<exists>k. longitud_bits n = Suc k"
  by (subst longitud_bits.simps) simp

lemma exponente_correcto:
  assumes "0 < x"
  shows "dos_a (exponente x) \<le> x \<and> x < dos_a (exponente x + 1)"
proof (cases "1 \<le> x")
  case True
  define n where "n = nat \<lfloor>x\<rfloor>"
  have n1: "n \<noteq> 0" using True by (simp add: n_def)
  have nx: "real n \<le> x" "x < real n + 1" using True by (simp_all add: n_def)
  obtain k where k: "longitud_bits n = Suc k"
    using longitud_bits_pos [OF n1] by blast
  have lo: "2 ^ k \<le> n" using longitud_bits_piso [OF n1] k by simp
  have hi: "Suc n \<le> 2 ^ Suc k" using longitud_bits_cota [of n] k by simp
  have e: "exponente x = int k" using True k by (simp add: exponente_def n_def)
  have d0: "dos_a (exponente x) = real (2 ^ k)" by (simp add: e dos_a_def)
  have d1: "dos_a (exponente x + 1) = real (2 ^ Suc k)"
    by (simp add: e dos_a_def nat_add_distrib)
  have "real (2 ^ k) \<le> real n" using lo by (rule of_nat_mono)
  then have a: "dos_a (exponente x) \<le> x" unfolding d0 using nx(1) by (rule order_trans)
  have "real (Suc n) \<le> real (2 ^ Suc k)" using hi by (rule of_nat_mono)
  moreover have "x < real (Suc n)" using nx(2) by simp
  ultimately have b: "x < dos_a (exponente x + 1)" unfolding d1 by (rule less_le_trans [rotated])
  show ?thesis using a b by simp
next
  case False
  define y where "y = 1 / x"
  define m where "m = nat (\<lceil>y\<rceil> - 1)"
  have y1: "1 < y" using False assms by (simp add: y_def)
  then have c2: "2 \<le> \<lceil>y\<rceil>" by (simp add: le_ceiling_iff)
  have y0: "0 < y" using y1 by simp
  have xy: "1 / y = x" by (simp add: y_def)
  have m1: "m \<noteq> 0" using c2 by (simp add: m_def)
  have cm: "real m = real_of_int \<lceil>y\<rceil> - 1" using c2 by (simp add: m_def)
  have my: "real m < y" "y \<le> real (Suc m)"
    using ceiling_correct [of y] cm by simp_all
  obtain k where k: "longitud_bits m = Suc k"
    using longitud_bits_pos [OF m1] by blast
  have lo: "2 ^ k \<le> m" using longitud_bits_piso [OF m1] k by simp
  have hi: "Suc m \<le> 2 ^ Suc k" using longitud_bits_cota [of m] k by simp
  have e: "exponente x = - int (Suc k)" using False k by (simp add: exponente_def m_def y_def)
  have nn: "nat (int j + 1) = Suc j" for j by simp
  have d0: "dos_a (exponente x) = 1 / real (2 ^ Suc k)" by (simp add: e dos_a_def nn)
  have d1: "dos_a (exponente x + 1) = 1 / real (2 ^ k)"
    by (cases k) (simp_all add: e dos_a_def nn)
  have "real (Suc m) \<le> real (2 ^ Suc k)" using hi by (rule of_nat_mono)
  with my(2) have "y \<le> real (2 ^ Suc k)" by (rule order_trans)
  then have "1 / real (2 ^ Suc k) \<le> 1 / y" using y0 by (intro frac_le) simp_all
  then have "1 / real (2 ^ Suc k) \<le> x" by (simp only: xy)
  then have a: "dos_a (exponente x) \<le> x" by (simp only: d0)
  have "real (2 ^ k) \<le> real m" using lo by (rule of_nat_mono)
  then have "real (2 ^ k) < y" using my(1) by (rule le_less_trans)
  moreover have "0 < real (2 ^ k)" by simp
  ultimately have "1 / y < 1 / real (2 ^ k)" by (intro frac_less2) simp_all
  then have "x < 1 / real (2 ^ k)" by (simp only: xy)
  then have b: "x < dos_a (exponente x + 1)" by (simp only: d1)
  show ?thesis using a b by simp
qed












section \<open>Properties of the arrival generator\<close>

lemma tiempos_reales_sin_tasa:
  assumes "\<not> lambda_min > 0"
  shows "tiempos_reales_bucle tiempo total_min lambda_min draws acc = Some acc"
proof (cases "flt_less tiempo (real_of_int total_min)")
  case True
  have "tiempos_reales_bucle tiempo total_min lambda_min draws acc =
      tiempos_reales_bucle (flt_add tiempo PInf) total_min lambda_min draws acc"
    using True assms by (subst tiempos_reales_bucle.simps) simp
  also have "flt_add tiempo PInf = PInf" by (cases tiempo) simp_all
  also have "tiempos_reales_bucle PInf total_min lambda_min draws acc = Some acc"
    by (subst tiempos_reales_bucle.simps) simp
  finally show ?thesis .
next
  case False
  then show ?thesis by (subst tiempos_reales_bucle.simps) simp
qed

lemma tiempos_reales_paso:
  assumes "lambda_min > 0"
  shows "tiempos_reales_bucle (Fin x) total_min lambda_min draws acc =
     (if x < real_of_int total_min then
        (case draws of
           [] \<Rightarrow> None
         | delta # resto \<Rightarrow>
             tiempos_reales_bucle (Fin (x + delta)) total_min lambda_min resto
               (if x + delta < real_of_int total_min then acc @ [x + delta] else acc))
      else Some acc)"
  using assms by (subst tiempos_reales_bucle.simps) (simp add: Let_def split: list.splits)

lemma tiempos_reales_rango:
  assumes "lambda_min > 0" and "\<forall>d \<in> set draws. 0 \<le> d" and "0 \<le> x"
    and "\<forall>t \<in> set acc. 0 \<le> t \<and> t < real_of_int total_min"
    and "tiempos_reales_bucle (Fin x) total_min lambda_min draws acc = Some ts"
  shows "\<forall>t \<in> set ts. 0 \<le> t \<and> t < real_of_int total_min"
  using assms(2-5)
proof (induction draws arbitrary: x acc)
  case Nil
  then show ?case
    by (simp add: tiempos_reales_paso [OF assms(1)] split: if_splits)
next
  case (Cons d ds)
  show ?case
  proof (cases "x < real_of_int total_min")
    case True
    define acc' where
      "acc' = (if x + d < real_of_int total_min then acc @ [x + d] else acc)"
    have d0: "0 \<le> d" using Cons.prems(1) by simp
    have r: "tiempos_reales_bucle (Fin (x + d)) total_min lambda_min ds acc' = Some ts"
      using Cons.prems(4) True by (simp add: tiempos_reales_paso [OF assms(1)] acc'_def)
    have a: "\<forall>t \<in> set acc'. 0 \<le> t \<and> t < real_of_int total_min"
      using Cons.prems(2,3) d0 by (auto simp: acc'_def)
    show ?thesis
      using Cons.IH [of "x + d" acc'] Cons.prems(1,2) d0 a r by simp
  next
    case False
    then have "ts = acc" using Cons.prems(4) by (simp add: tiempos_reales_paso [OF assms(1)])
    then show ?thesis using Cons.prems(3) by simp
  qed
qed

lemma tiempos_reales_termina:
  assumes "lambda_min > 0" and "\<forall>d \<in> set draws. 0 \<le> d"
    and "real_of_int total_min \<le> x + sum_list draws"
  shows "\<exists>ts. tiempos_reales_bucle (Fin x) total_min lambda_min draws acc = Some ts"
  using assms(2,3)
proof (induction draws arbitrary: x acc)
  case Nil
  then show ?case by (simp add: tiempos_reales_paso [OF assms(1)])
next
  case (Cons d ds)
  have "real_of_int total_min \<le> (x + d) + sum_list ds" using Cons.prems(2) by simp
  then have "\<exists>ts. tiempos_reales_bucle (Fin (x + d)) total_min lambda_min ds acc' = Some ts"
    for acc'
    using Cons.IH [of "x + d" acc'] Cons.prems(1) by simp
  then show ?case by (simp add: tiempos_reales_paso [OF assms(1)])
qed

lemma desplazar_cota:
  "minuto \<le> desplazar ocupados total_min minuto \<and>
   (desplazar ocupados total_min minuto < total_min \<longrightarrow>
      desplazar ocupados total_min minuto \<notin> ocupados)"
proof (induction ocupados total_min minuto rule: desplazar.induct)
  case (1 ocupados total_min minuto)
  show ?case
  proof (cases "minuto \<in> ocupados \<and> minuto < total_min")
    case True
    have "desplazar ocupados total_min minuto = desplazar ocupados total_min (minuto + 1)"
      using True by (subst desplazar.simps) simp
    then show ?thesis using "1.IH" [OF True] by simp
  next
    case False
    have "desplazar ocupados total_min minuto = minuto"
      using False by (subst desplazar.simps) auto
    then show ?thesis using False by auto
  qed
qed

lemma enteros_bucle_inv:
  assumes "distinct te" and "set te \<subseteq> ocupados" and "\<forall>m \<in> set te. 0 \<le> m \<and> m < total_min"
    and "\<forall>t \<in> set ts. 0 \<le> t"
  shows "distinct (enteros_bucle ts total_min te ocupados) \<and>
         (\<forall>m \<in> set (enteros_bucle ts total_min te ocupados). 0 \<le> m \<and> m < total_min)"
  using assms
proof (induction ts arbitrary: te ocupados)
  case Nil
  then show ?case by simp
next
  case (Cons t ts)
  define minuto where "minuto = desplazar ocupados total_min (py_int t)"
  have t0: "0 \<le> t" using Cons.prems(4) by simp
  have p0: "0 \<le> py_int t" using t0 by (simp add: py_int_def)
  have m0: "0 \<le> minuto" using desplazar_cota [of "py_int t" ocupados total_min] p0
    by (simp add: minuto_def)
  have libre: "minuto < total_min \<Longrightarrow> minuto \<notin> ocupados"
    using desplazar_cota [of "py_int t" ocupados total_min] by (simp add: minuto_def)
  show ?case
  proof (cases "minuto < total_min")
    case True
    have 1: "distinct (te @ [minuto])" using Cons.prems(1,2) libre [OF True] by auto
    have 2: "set (te @ [minuto]) \<subseteq> insert minuto ocupados" using Cons.prems(2) by auto
    have 3: "\<forall>m \<in> set (te @ [minuto]). 0 \<le> m \<and> m < total_min"
      using Cons.prems(3) m0 True by auto
    have 4: "\<forall>t \<in> set ts. 0 \<le> t" using Cons.prems(4) by simp
    show ?thesis
      using Cons.IH [OF 1 2 3 4] True by (simp add: minuto_def [symmetric] Let_def)
  next
    case False
    have 4: "\<forall>t \<in> set ts. 0 \<le> t" using Cons.prems(4) by simp
    show ?thesis
      using Cons.IH [OF Cons.prems(1,2,3) 4] False by (simp add: minuto_def [symmetric] Let_def)
  qed
qed

lemma crear_aviones_ids:
  "map (\<lambda>(i, t). Avion (int i + 1) t d) (enumerate 0 ts) ! i = Avion (int i + 1) (ts ! i) d"
  if "i < length ts"
  using that by (simp add: nth_enumerate_eq)


lemma py_int_rango:
  assumes "0 \<le> m" and "m < py_int x"
  shows "real_of_int m < x"
proof (cases "0 \<le> x")
  case True
  then have "real_of_int (py_int x) \<le> x" by (simp add: py_int_def)
  moreover have "real_of_int m < real_of_int (py_int x)" using assms(2) by simp
  ultimately show ?thesis by linarith
next
  case False
  then have "py_int x \<le> 0" by (simp add: py_int_def ceiling_le_iff)
  then show ?thesis using assms by simp
qed

lemma generar_some:
  assumes "generar_vuelos_poisson lambda_hora h draws = Some ts"
  shows "\<exists>tr. tiempos_reales_bucle (Fin 0) (py_int (h * 60)) (lambda_hora / 60) draws [] = Some tr \<and>
           ts = sort (enteros_bucle tr (py_int (h * 60)) [] {})"
  using assms by (auto simp: generar_vuelos_poisson_def Let_def split: option.splits)

text \<open>
  Claim C6. With rate 0 the generator returns the empty list. With a positive rate and
  non-negative exponential draws, the generator returns as soon as the draws add up to the
  horizon, and whatever it returns is strictly increasing, without duplicates, and made of
  integer minutes in \<open>[0, duracion_horas * 60)\<close>; \<open>crear_aviones\<close> then builds one aircraft per
  minute, the \<open>i\<close>-th (from 0) with \<open>tiempo_radar\<close> the \<open>i\<close>-th minute and \<open>num = i + 1\<close>.
\<close>

theorem generar_vuelos_poisson_correcto:
  "(lambda_hora = 0 \<longrightarrow> generar_vuelos_poisson lambda_hora duracion_horas draws = Some []) \<and>
   (0 < lambda_hora \<and> (\<forall>d \<in> set draws. 0 \<le> d) \<longrightarrow>
      (real_of_int (py_int (duracion_horas * 60)) \<le> sum_list draws \<longrightarrow>
         (\<exists>ts. generar_vuelos_poisson lambda_hora duracion_horas draws = Some ts)) \<and>
      (\<forall>ts. generar_vuelos_poisson lambda_hora duracion_horas draws = Some ts \<longrightarrow>
         sorted_wrt (<) ts \<and> distinct ts \<and>
         (\<forall>m \<in> set ts. 0 \<le> m \<and> real_of_int m < duracion_horas * 60) \<and>
         (\<exists>aviones.
            crear_aviones lambda_hora duracion_horas distancia_inicial draws = Some aviones \<and>
            length aviones = length ts \<and>
            (\<forall>i < length ts.
               aviones ! i = Avion (int i + 1) (ts ! i) distancia_inicial \<and>
               num (aviones ! i) = int i + 1 \<and> tiempo_radar (aviones ! i) = ts ! i))))"
proof (intro conjI impI allI)
  assume "lambda_hora = 0"
  then show "generar_vuelos_poisson lambda_hora duracion_horas draws = Some []"
    by (simp add: generar_vuelos_poisson_def tiempos_reales_sin_tasa)
next
  assume h: "0 < lambda_hora \<and> (\<forall>d \<in> set draws. 0 \<le> d)"
    and s: "real_of_int (py_int (duracion_horas * 60)) \<le> sum_list draws"
  have "\<exists>ts. tiempos_reales_bucle (Fin 0) (py_int (duracion_horas * 60)) (lambda_hora / 60)
      draws [] = Some ts"
    by (rule tiempos_reales_termina) (use h s in simp_all)
  then show "\<exists>ts. generar_vuelos_poisson lambda_hora duracion_horas draws = Some ts"
    by (auto simp: generar_vuelos_poisson_def Let_def)
next
  fix ts
  assume h: "0 < lambda_hora \<and> (\<forall>d \<in> set draws. 0 \<le> d)"
    and g: "generar_vuelos_poisson lambda_hora duracion_horas draws = Some ts"
  define total where "total = py_int (duracion_horas * 60)"
  obtain tr where tr: "tiempos_reales_bucle (Fin 0) total (lambda_hora / 60) draws [] = Some tr"
      "ts = sort (enteros_bucle tr total [] {})"
    using generar_some [OF g] total_def by blast
  have pos: "\<forall>t \<in> set tr. 0 \<le> t \<and> t < real_of_int total"
    by (rule tiempos_reales_rango [OF _ _ _ _ tr(1)]) (use h in simp_all)
  have inv: "distinct (enteros_bucle tr total [] {}) \<and>
      (\<forall>m \<in> set (enteros_bucle tr total [] {}). 0 \<le> m \<and> m < total)"
    by (rule enteros_bucle_inv) (use pos in simp_all)
  have d: "distinct ts" using inv tr(2) by simp
  have "sorted ts" using tr(2) by simp
  then have sw: "sorted_wrt (<) ts" using d by (simp add: strict_sorted_iff)
  have rng: "\<forall>m \<in> set ts. 0 \<le> m \<and> real_of_int m < duracion_horas * 60"
    using inv tr(2) py_int_rango [of _ "duracion_horas * 60"] by (auto simp: total_def)
  define aviones where
    "aviones = map (\<lambda>(i, t). Avion (int i + 1) t distancia_inicial) (enumerate 0 ts)"
  have c: "crear_aviones lambda_hora duracion_horas distancia_inicial draws = Some aviones"
    using g by (simp add: crear_aviones_def aviones_def)
  have l: "length aviones = length ts" by (simp add: aviones_def)
  have e: "\<forall>i < length ts.
       aviones ! i = Avion (int i + 1) (ts ! i) distancia_inicial \<and>
       num (aviones ! i) = int i + 1 \<and> tiempo_radar (aviones ! i) = ts ! i"
  proof (intro allI impI)
    fix i assume i: "i < length ts"
    have "aviones ! i = Avion (int i + 1) (ts ! i) distancia_inicial"
      unfolding aviones_def by (rule crear_aviones_ids [OF i])
    then show "aviones ! i = Avion (int i + 1) (ts ! i) distancia_inicial \<and>
       num (aviones ! i) = int i + 1 \<and> tiempo_radar (aviones ! i) = ts ! i"
      by (simp add: Avion_def)
  qed
  show "sorted_wrt (<) ts" by (rule sw)
  show "distinct ts" by (rule d)
  show "\<forall>m \<in> set ts. 0 \<le> m \<and> real_of_int m < duracion_horas * 60" by (rule rng)
  show "\<exists>aviones.
            crear_aviones lambda_hora duracion_horas distancia_inicial draws = Some aviones \<and>
            length aviones = length ts \<and>
            (\<forall>i < length ts.
               aviones ! i = Avion (int i + 1) (ts ! i) distancia_inicial \<and>
               num (aviones ! i) = int i + 1 \<and> tiempo_radar (aviones ! i) = ts ! i)"
    using c l e by blast
qed

lemma generar_ejemplo:
  "generar_vuelos_poisson 60 (1 / 6) [5 / 2, 1 / 5, 1 / 10, 3, 10] = Some [2, 3, 4, 5]"
  by (simp add: generar_vuelos_poisson_def tiempos_reales_bucle.simps desplazar.simps
      py_int_def Let_def)

theorem generar_vuelos_poisson_correcto_witness:
  "generar_vuelos_poisson 60 (1 / 6) [5 / 2, 1 / 5, 1 / 10, 3, 10] = Some [2, 3, 4, 5] \<and>
   sorted_wrt (<) [2, 3, 4, 5 :: int] \<and> distinct [2, 3, 4, 5 :: int] \<and>
   (0::int) \<le> 2 \<and> real_of_int 5 < 1 / 6 * 60 \<and>
   (case crear_aviones 60 (1 / 6) 100 [5 / 2, 1 / 5, 1 / 10, 3, 10] of
      None \<Rightarrow> False
    | Some aviones \<Rightarrow> map num aviones = [1, 2, 3, 4] \<and> map tiempo_radar aviones = [2, 3, 4, 5]) \<and>
   generar_vuelos_poisson 0 (1 / 6) [5 / 2, 1 / 5, 1 / 10, 3, 10] = Some []"
proof -
  have h: "0 < (60::real) \<and> (\<forall>d \<in> set [5 / 2, 1 / 5, 1 / 10, 3, 10 :: real]. 0 \<le> d)"
    by simp
  note t = generar_vuelos_poisson_correcto
             [of 60 "1 / 6" "[5 / 2, 1 / 5, 1 / 10, 3, 10]" 100, THEN conjunct2, THEN mp, OF h]
  note u = t [THEN conjunct2, THEN spec, of "[2, 3, 4, 5]", THEN mp, OF generar_ejemplo]
  note z = generar_vuelos_poisson_correcto
             [of 0 "1 / 6" "[5 / 2, 1 / 5, 1 / 10, 3, 10]" 100, THEN conjunct1]
  show ?thesis
    using u z generar_ejemplo
    by (simp add: crear_aviones_def enumerate_eq_zip Avion_def)
qed

end
